theory Spec2Isabelle
  imports Main
begin

section \<open>Python string primitives used by the skill manager\<close>

text \<open>
  The scripts under \<^verbatim>\<open>skill-manager/scripts\<close> parse their source argument with
  \<^verbatim>\<open>str.split\<close>, \<^verbatim>\<open>str.join\<close>, \<^verbatim>\<open>str.rstrip\<close>, \<^verbatim>\<open>str.replace\<close> and
  \<^verbatim>\<open>str.startswith\<close>. Each is modelled on \<open>string\<close> with Python's result on every
  input, the empty string included.
\<close>

text \<open>\<^verbatim>\<open>s.split(sep)\<close> for a separator chosen by a predicate on characters: the result is
  never empty, and two adjacent separators enclose an empty field.\<close>

fun split_by :: "(char \<Rightarrow> bool) \<Rightarrow> string \<Rightarrow> string list" where
  "split_by p [] = [[]]"
| "split_by p (x # xs) =
     (if p x then [] # split_by p xs
      else (case split_by p xs of
              [] \<Rightarrow> [[x]]
            | y # ys \<Rightarrow> (x # y) # ys))"

definition split_on :: "char \<Rightarrow> string \<Rightarrow> string list" where
  "split_on c s = split_by (\<lambda>x. x = c) s"

text \<open>\<^verbatim>\<open>sep.join(parts)\<close>.\<close>

fun join :: "string \<Rightarrow> string list \<Rightarrow> string" where
  "join sep [] = []"
| "join sep [x] = x"
| "join sep (x # y # ys) = x @ sep @ join sep (y # ys)"

text \<open>\<^verbatim>\<open>s.rstrip(c)\<close> for a single character \<open>c\<close>.\<close>

definition rstrip :: "char \<Rightarrow> string \<Rightarrow> string" where
  "rstrip c s = rev (dropWhile (\<lambda>x. x = c) (rev s))"

text \<open>\<^verbatim>\<open>s.startswith(p)\<close>.\<close>

definition startswith :: "string \<Rightarrow> string \<Rightarrow> bool" where
  "startswith s p = (take (length p) s = p)"

text \<open>The characters \<^verbatim>\<open>str.split()\<close> and \<^verbatim>\<open>str.strip()\<close> treat as white space, within
  ASCII: space, tab, line feed, vertical tab, form feed, carriage return and the four
  separators \<^verbatim>\<open>0x1c\<close> to \<^verbatim>\<open>0x1f\<close>.\<close>

definition is_space :: "char \<Rightarrow> bool" where
  "is_space c = (of_char c \<in> {32, 9, 10, 11, 12, 13, 28, 29, 30, 31 :: nat})"

text \<open>\<^verbatim>\<open>s.split()\<close> with no argument: the maximal runs of characters that are not white
  space.\<close>

definition words :: "string \<Rightarrow> string list" where
  "words s = filter (\<lambda>w. w \<noteq> []) (split_by is_space s)"

text \<open>\<^verbatim>\<open>s.strip()\<close>.\<close>

definition strip :: "string \<Rightarrow> string" where
  "strip s = rev (dropWhile is_space (rev (dropWhile is_space s)))"

text \<open>\<^verbatim>\<open>s.replace(old, new)\<close>: every occurrence of \<open>old\<close>, left to right, without
  overlap. The scripts call it with a non-empty \<open>old\<close> only; for an empty \<open>old\<close>
  the model leaves the string as it is.\<close>

function replace :: "string \<Rightarrow> string \<Rightarrow> string \<Rightarrow> string" where
  "replace old new [] = []"
| "replace old new (x # xs) =
     (if old \<noteq> [] \<and> take (length old) (x # xs) = old
      then new @ replace old new (drop (length old) (x # xs))
      else x # replace old new xs)"
  by pat_completeness auto
termination
  by (relation "measure (\<lambda>(old, new, s). length s)") auto

section \<open>Source descriptors and their parsers\<close>

text \<open>The dataclass \<^verbatim>\<open>Source\<close>. The field \<^verbatim>\<open>path\<close> is the subpath inside the
  repository, \<^verbatim>\<open>skill_name\<close> the derived name.\<close>

record source =
  owner :: string
  repo :: string
  ref :: string
  path :: string
  skill_name :: string

text \<open>The messages of \<^verbatim>\<open>InstallError\<close>, one constructor for each place that raises it,
  carrying what the message interpolates.\<close>

datatype install_error =
    OnlyGitHub
  | InvalidGitHubURL
  | MissingRefOrPath
  | InvalidShorthand
  | HTTPFailure nat string
  | NoAgentsDetected
  | NoneOfAgentsFound "string list"

text \<open>The exceptions that leave a function of the scripts: \<^verbatim>\<open>InstallError\<close>, raised by
  the scripts themselves, and the exceptions of the standard library that the scripts
  call into: \<^verbatim>\<open>subprocess.run\<close> (\<^verbatim>\<open>CalledProcessError\<close> under \<^verbatim>\<open>check=True\<close>,
  \<^verbatim>\<open>TimeoutExpired\<close> under \<^verbatim>\<open>timeout=\<close>, \<^verbatim>\<open>FileNotFoundError\<close> for a missing
  executable), \<^verbatim>\<open>urlopen\<close> (\<^verbatim>\<open>URLError\<close>), \<^verbatim>\<open>zipfile\<close> (\<^verbatim>\<open>BadZipFile\<close>) and
  \<^verbatim>\<open>pathlib\<close>/\<^verbatim>\<open>shutil\<close> (\<^verbatim>\<open>FileExistsError\<close>, \<^verbatim>\<open>NotADirectoryError\<close>).\<close>

datatype exn =
    InstallError install_error
  | CalledProcessError
  | TimeoutExpired
  | FileNotFoundError
  | URLError
  | BadZipFile
  | FileExistsError
  | NotADirectoryError

text \<open>\<^verbatim>\<open>parse_shorthand(shorthand, default_ref)\<close>.\<close>

definition parse_shorthand :: "string \<Rightarrow> string \<Rightarrow> exn + source" where
  "parse_shorthand shorthand default_ref =
     (let parts = split_on CHR ''/'' shorthand in
      if length parts < 2 then Inl (InstallError InvalidShorthand)
      else
        let owner = parts ! 0;
            repo = parts ! 1;
            path = (if length parts > 2 then join ''/'' (drop 2 parts) else '''');
            skill_name = (if length parts > 2 then last parts else repo)
        in Inr \<lparr>owner = owner, repo = repo, ref = default_ref, path = path,
                 skill_name = skill_name\<rparr>)"

text \<open>\<^verbatim>\<open>parse_github_url(url, default_ref)\<close>. The standard library's
  \<^verbatim>\<open>urllib.parse.urlparse\<close> is a parameter: it maps the URL to the pair of its
  \<^verbatim>\<open>netloc\<close> and its \<^verbatim>\<open>path\<close>, the two components the function reads.\<close>

definition parse_github_url :: "(string \<Rightarrow> string \<times> string) \<Rightarrow> string \<Rightarrow> string \<Rightarrow> exn + source" where
  "parse_github_url urlparse url default_ref =
     (let (netloc, urlpath) = urlparse url in
      if netloc \<notin> {''github.com'', ''www.github.com''} then Inl (InstallError OnlyGitHub)
      else
        let parts = filter (\<lambda>p. p \<noteq> []) (split_on CHR ''/'' urlpath) in
        if length parts < 2 then Inl (InstallError InvalidGitHubURL)
        else
          let owner = parts ! 0;
              repo = parts ! 1
          in
          if length parts > 2 \<and> parts ! 2 \<in> {''tree'', ''blob''} \<and> length parts < 4
          then Inl (InstallError MissingRefOrPath)
          else
            let (ref, subpath) =
                  (if length parts > 2 then
                     (if parts ! 2 \<in> {''tree'', ''blob''}
                      then (parts ! 3, join ''/'' (drop 4 parts))
                      else (default_ref, join ''/'' (drop 2 parts)))
                   else (default_ref, ''''));
                skill_name =
                  (if subpath \<noteq> [] then last (split_on CHR ''/'' (rstrip CHR ''/'' subpath))
                   else repo)
            in Inr \<lparr>owner = owner, repo = repo, ref = ref, path = subpath,
                     skill_name = skill_name\<rparr>)"

section \<open>The file system and the world outside the scripts\<close>

text \<open>
  A path is the string the scripts build; two paths are the same file when the strings are
  equal. \<^verbatim>\<open>Path(a) / b\<close> keeps \<open>a\<close> for an empty \<open>b\<close> and is \<open>b\<close> for an
  absolute \<open>b\<close>, as \<^verbatim>\<open>pathlib\<close> has it. \<^verbatim>\<open>Path(p).name\<close> is the last component that
  is neither empty nor a dot.
\<close>

type_synonym fpath = string

definition joinpath :: "fpath \<Rightarrow> string \<Rightarrow> fpath" where
  "joinpath a b =
     (if b = [] then a
      else if hd b = CHR ''/'' then b
      else if a = [] then b
      else if last a = CHR ''/'' then a @ b
      else a @ ''/'' @ b)"

definition parts_of :: "string \<Rightarrow> string list" where
  "parts_of p = filter (\<lambda>c. c \<noteq> [] \<and> c \<noteq> ''.'') (split_on CHR ''/'' p)"

definition path_name :: "fpath \<Rightarrow> string" where
  "path_name p = (case parts_of p of [] \<Rightarrow> [] | c # cs \<Rightarrow> last (c # cs))"

text \<open>
  The content of a directory is the list of the files beneath it, each under its relative
  path (a list of components) with its bytes: what a git work tree or an archive holds.
  \<open>subtree t cs\<close> is the content of the directory \<open>cs\<close> of \<open>t\<close>; \<open>overlay\<close> is the
  merge of \<^verbatim>\<open>shutil.copytree(src, dst, dirs_exist_ok=True)\<close>: files of the source replace
  files of the same path.
\<close>

type_synonym tree = "(string list \<times> string) list"

definition subtree :: "tree \<Rightarrow> string list \<Rightarrow> tree" where
  "subtree t cs =
     map (\<lambda>(k, v). (drop (length cs) k, v))
       (filter (\<lambda>(k, v). take (length cs) k = cs \<and> length cs < length k) t)"

definition tree_file :: "tree \<Rightarrow> string list \<Rightarrow> bool" where
  "tree_file t cs = (cs \<noteq> [] \<and> map_of t cs \<noteq> None)"

definition tree_dir :: "tree \<Rightarrow> string list \<Rightarrow> bool" where
  "tree_dir t cs = (cs = [] \<or> subtree t cs \<noteq> [])"

definition tree_exists :: "tree \<Rightarrow> string list \<Rightarrow> bool" where
  "tree_exists t cs = (tree_dir t cs \<or> tree_file t cs)"

definition overlay :: "tree \<Rightarrow> tree \<Rightarrow> tree" where
  "overlay src dst = src @ filter (\<lambda>(k, v). map_of src k = None) dst"

definition top_names :: "tree \<Rightarrow> string list" where
  "top_names t = remdups (map (\<lambda>(k, v). hd k) (filter (\<lambda>(k, v). k \<noteq> []) t))"

text \<open>
  The file system maps a path to the entry there: a directory with its content, or a
  symbolic link with its target. A skill is a directory bundle, and the paths the model
  tracks are the ones the scripts test, create and delete: the local source and the
  destinations under the agents' skill directories. Regular files at these paths, and the
  creation of missing parent directories (\<^verbatim>\<open>parents=True\<close>), are outside the model.
\<close>

datatype entry = Directory tree | Symlink fpath

type_synonym fsys = "fpath \<Rightarrow> entry option"

text \<open>\<open>follow n fs p\<close> is the directory reached from \<open>p\<close> through fewer than \<open>n\<close>
  symbolic links; the kernel gives up after 40 links.\<close>

fun follow :: "nat \<Rightarrow> fsys \<Rightarrow> fpath \<Rightarrow> fpath option" where
  "follow 0 fs p = None"
| "follow (Suc n) fs p =
     (case fs p of
        None \<Rightarrow> None
      | Some (Directory t) \<Rightarrow> Some p
      | Some (Symlink q) \<Rightarrow> follow n fs q)"

definition resolve :: "fsys \<Rightarrow> fpath \<Rightarrow> fpath option" where
  "resolve fs p = follow (Suc 40) fs p"

text \<open>\<^verbatim>\<open>Path.exists()\<close> follows symbolic links: a dangling link does not exist.
  \<^verbatim>\<open>Path.is_symlink()\<close> looks at the entry itself.\<close>

definition path_exists :: "fsys \<Rightarrow> fpath \<Rightarrow> bool" where
  "path_exists fs p = (resolve fs p \<noteq> None)"

definition is_symlink :: "fsys \<Rightarrow> fpath \<Rightarrow> bool" where
  "is_symlink fs p = (case fs p of Some (Symlink q) \<Rightarrow> True | _ \<Rightarrow> False)"

text \<open>\<^verbatim>\<open>p.resolve()\<close>: the path with its links followed; a path that does not exist is
  kept.\<close>

definition resolved :: "fsys \<Rightarrow> fpath \<Rightarrow> fpath" where
  "resolved fs p = (case resolve fs p of Some d \<Rightarrow> d | None \<Rightarrow> p)"

text \<open>The content of the directory at \<open>p\<close>, links followed.\<close>

definition dir_content :: "fsys \<Rightarrow> fpath \<Rightarrow> tree" where
  "dir_content fs p =
     (case resolve fs p of
        None \<Rightarrow> []
      | Some d \<Rightarrow> (case fs d of Some (Directory t) \<Rightarrow> t | _ \<Rightarrow> []))"

text \<open>\<^verbatim>\<open>p.mkdir(parents=True, exist_ok=True)\<close>: a directory (or a link to one) is left as
  it is; a dangling link at \<open>p\<close> raises \<^verbatim>\<open>FileExistsError\<close>.\<close>

definition mkdir_p :: "fsys \<Rightarrow> fpath \<Rightarrow> exn + fsys" where
  "mkdir_p fs p =
     (case fs p of
        None \<Rightarrow> Inr (fs(p \<mapsto> Directory []))
      | Some e \<Rightarrow> if path_exists fs p then Inr fs else Inl FileExistsError)"

text \<open>\<^verbatim>\<open>shutil.copytree(src, dest, dirs_exist_ok=True)\<close> for a source directory of content
  \<open>src\<close>. The scripts call it right after \<^verbatim>\<open>dest.mkdir\<close>, so \<open>dest\<close> is a directory or
  a link to one, and the files land in the directory the link leads to.\<close>

definition copytree :: "tree \<Rightarrow> fsys \<Rightarrow> fpath \<Rightarrow> fsys" where
  "copytree src fs dest =
     (case resolve fs dest of
        None \<Rightarrow> fs
      | Some d \<Rightarrow> fs(d \<mapsto> Directory (overlay src (dir_content fs d))))"

text \<open>\<^verbatim>\<open>shutil.rmtree(p)\<close> of a directory and \<^verbatim>\<open>p.unlink()\<close> of a link remove the entry
  at \<open>p\<close>; \<^verbatim>\<open>p.symlink_to(target)\<close> needs \<open>p\<close> free.\<close>

definition rmtree :: "fsys \<Rightarrow> fpath \<Rightarrow> fsys" where
  "rmtree fs p = fs(p := None)"

definition unlink :: "fsys \<Rightarrow> fpath \<Rightarrow> fsys" where
  "unlink fs p = fs(p := None)"

definition symlink_to :: "fsys \<Rightarrow> fpath \<Rightarrow> fpath \<Rightarrow> exn + fsys" where
  "symlink_to fs p target =
     (case fs p of None \<Rightarrow> Inr (fs(p \<mapsto> Symlink target)) | Some e \<Rightarrow> Inl FileExistsError)"

text \<open>The outcome of \<^verbatim>\<open>subprocess.run\<close>: the exit status of the process, or the timeout
  passed, or no such executable. The outcome of \<^verbatim>\<open>urlopen\<close>: the final response with
  its status, reason and body, or no connection.\<close>

datatype proc = Exited int | TimedOut | NoSuchProgram

datatype http = Response nat string string | Unreachable

text \<open>
  What the scripts read from their environment and what answers their calls to other
  programs and to the network. The state of everything outside (remote repositories, the
  network, the agents' own tools) is a value of the type \<open>'x\<close>; a call may depend on
  it and change it.
  \<^item> \<open>home\<close>, \<open>cwd\<close>: \<^verbatim>\<open>Path.home()\<close>, \<^verbatim>\<open>Path.cwd()\<close>; \<open>codex_home\<close>, \<open>github_token\<close>,
    \<open>gh_token\<close>: the environment variables \<^verbatim>\<open>CODEX_HOME\<close>, \<^verbatim>\<open>GITHUB_TOKEN\<close>,
    \<^verbatim>\<open>GH_TOKEN\<close>;
  \<^item> \<open>urlparse\<close>: netloc and path of a URL;
  \<^item> \<open>which\<close>: whether \<^verbatim>\<open>shutil.which\<close> finds the program;
  \<^item> \<open>probe\<close>: an agent's version command, with the text it prints; it changes nothing;
  \<^item> \<open>native\<close>: an agent's own install or remove command, which places and deletes
    files where it decides;
  \<^item> \<open>git_clone\<close>: the sparse, shallow clone of a repository URL at a ref into a fresh
    temporary directory, with the work tree it leaves there;
  \<^item> \<open>git_sparse_set\<close>: \<^verbatim>\<open>git sparse-checkout set\<close> of a subpath in that clone, with
    the work tree afterwards;
  \<^item> \<open>urlopen\<close>: the request for a URL with the optional \<^verbatim>\<open>Authorization\<close> header;
  \<^item> \<open>unzip\<close>: the files of a zip archive, \<open>None\<close> for bytes that are not one.
\<close>

record 'x env =
  home :: fpath
  cwd :: fpath
  codex_home :: "string option"
  github_token :: "string option"
  gh_token :: "string option"
  urlparse :: "string \<Rightarrow> string \<times> string"
  which :: "'x \<Rightarrow> string \<Rightarrow> bool"
  probe :: "string list \<Rightarrow> fsys \<Rightarrow> 'x \<Rightarrow> proc \<times> string"
  native :: "string list \<Rightarrow> fsys \<Rightarrow> 'x \<Rightarrow> proc \<times> fsys \<times> 'x"
  git_clone :: "string \<Rightarrow> string \<Rightarrow> 'x \<Rightarrow> (proc \<times> tree) \<times> 'x"
  git_sparse_set :: "string \<Rightarrow> tree \<Rightarrow> 'x \<Rightarrow> (proc \<times> tree) \<times> 'x"
  urlopen :: "string \<Rightarrow> string option \<Rightarrow> 'x \<Rightarrow> http \<times> 'x"
  unzip :: "string \<Rightarrow> tree option"

text \<open>The state a run changes: the file system, the state outside, and a log that is not
  in the scripts: the acquisition strategies called so far, each with the name the report
  uses for it and the value it returned.\<close>

record 'x world =
  files :: fsys
  ext :: 'x
  calls :: "(string \<times> bool) list"

section \<open>The acquisition strategies\<close>

text \<open>Python's truth value of an optional string: \<^verbatim>\<open>None\<close> and the empty string are
  false.\<close>

definition truthy :: "string option \<Rightarrow> bool" where
  "truthy v = (case v of None \<Rightarrow> False | Some s \<Rightarrow> s \<noteq> [])"

text \<open>\<^verbatim>\<open>github_request(url)\<close>: the token is \<^verbatim>\<open>GITHUB_TOKEN\<close>, or \<^verbatim>\<open>GH_TOKEN\<close> when
  that is not set; \<^verbatim>\<open>urlopen\<close> raises \<^verbatim>\<open>HTTPError\<close> for a final status outside 200 to
  299, which the function turns into \<^verbatim>\<open>InstallError\<close>, and \<^verbatim>\<open>URLError\<close> when there is
  no connection, which it does not catch.\<close>

definition auth_header :: "'x env \<Rightarrow> string option" where
  "auth_header E =
     (let token = (if truthy (github_token E) then github_token E else gh_token E)
      in case token of
           None \<Rightarrow> None
         | Some t \<Rightarrow> if t \<noteq> [] then Some (''token '' @ t) else None)"

definition github_request :: "'x env \<Rightarrow> string \<Rightarrow> 'x \<Rightarrow> (exn + string) \<times> 'x" where
  "github_request E url x =
     (case urlopen E url (auth_header E) x of
        (Response code reason body, x') \<Rightarrow>
          (if 200 \<le> code \<and> code < 300 then (Inr body, x')
           else (Inl (InstallError (HTTPFailure code reason)), x'))
      | (Unreachable, x') \<Rightarrow> (Inl URLError, x'))"

text \<open>\<^verbatim>\<open>install_builtin(source, agent_cmd)\<close>: the agent's command with
  \<^verbatim>\<open>owner/repo[/path]\<close> appended, run with a timeout of 60 seconds. Both exceptions of
  \<^verbatim>\<open>subprocess.run\<close> are caught.\<close>

definition install_builtin :: "'x env \<Rightarrow> source \<Rightarrow> string \<Rightarrow> 'x world \<Rightarrow> exn + (bool \<times> 'x world)" where
  "install_builtin E source agent_cmd w =
     (let cmd_parts = words agent_cmd;
          skill_ref = owner source @ ''/'' @ repo source @
                      (if path source \<noteq> [] then ''/'' @ path source else []);
          cmd = cmd_parts @ [skill_ref]
      in case native E cmd (files w) (ext w) of
           (Exited rc, fs', x') \<Rightarrow> Inr (rc = 0, w\<lparr>files := fs', ext := x'\<rparr>)
         | (TimedOut, fs', x') \<Rightarrow> Inr (False, w\<lparr>files := fs', ext := x'\<rparr>)
         | (NoSuchProgram, fs', x') \<Rightarrow> Inr (False, w\<lparr>files := fs', ext := x'\<rparr>))"

text \<open>\<^verbatim>\<open>subprocess.run(cmd, check=True, ...)\<close>: what the call raises, if anything.\<close>

definition check_run :: "proc \<Rightarrow> exn option" where
  "check_run r =
     (case r of
        Exited rc \<Rightarrow> if rc = 0 then None else Some CalledProcessError
      | TimedOut \<Rightarrow> Some TimeoutExpired
      | NoSuchProgram \<Rightarrow> Some FileNotFoundError)"

text \<open>
  \<^verbatim>\<open>install_git_sparse(source, dest)\<close>. The clone runs inside
  \<^verbatim>\<open>try ... except subprocess.CalledProcessError: return False\<close>; the narrowing
  \<^verbatim>\<open>git sparse-checkout set\<close> runs with \<^verbatim>\<open>check=True\<close> outside any \<^verbatim>\<open>try\<close>. The
  temporary directory lives for the call only; its content is the work tree the two git
  commands leave. The subpath is looked up inside that work tree, component by
  component; a subpath that is a file there passes the existence test and makes
  \<^verbatim>\<open>copytree\<close> raise \<^verbatim>\<open>NotADirectoryError\<close>, after \<^verbatim>\<open>dest.mkdir\<close> has run. (A
  subpath that leaves the work tree, absolute or through \<^verbatim>\<open>..\<close>, is outside the model.)
  A \<^verbatim>\<open>.git\<close> that the copy brought along is removed from the destination.
\<close>

definition install_git_sparse :: "'x env \<Rightarrow> source \<Rightarrow> fpath \<Rightarrow> 'x world \<Rightarrow> exn + (bool \<times> 'x world)" where
  "install_git_sparse E source dest w =
     (if \<not> which E (ext w) ''git'' then Inr (False, w)
      else
        let repo_url = ''https://github.com/'' @ owner source @ ''/'' @ repo source @ ''.git'';
            ((cloned, tree1), x1) = git_clone E repo_url (ref source) (ext w)
        in case check_run cloned of
             Some CalledProcessError \<Rightarrow> Inr (False, w\<lparr>ext := x1\<rparr>)
           | Some e \<Rightarrow> Inl e
           | None \<Rightarrow>
               let ((narrowed, tree2), x2) =
                     (if path source \<noteq> [] then git_sparse_set E (path source) tree1 x1
                      else ((Exited 0, tree1), x1))
               in case check_run narrowed of
                    Some e \<Rightarrow> Inl e
                  | None \<Rightarrow>
                      let src_path = (if path source \<noteq> [] then parts_of (path source) else []) in
                      if \<not> tree_exists tree2 src_path then Inr (False, w\<lparr>ext := x2\<rparr>)
                      else
                        (case mkdir_p (files w) dest of
                           Inl e \<Rightarrow> Inl e
                         | Inr fs1 \<Rightarrow>
                             if \<not> tree_dir tree2 src_path then Inl NotADirectoryError
                             else
                               let fs2 = copytree (subtree tree2 src_path) fs1 dest;
                                   d = resolved fs2 dest;
                                   git_dir = filter (\<lambda>(k, v). take 1 k = [''.git'']) (dir_content fs2 d)
                               in if git_dir = [] then Inr (True, w\<lparr>files := fs2, ext := x2\<rparr>)
                                  else if tree_file (dir_content fs2 d) [''.git'']
                                  then Inl NotADirectoryError
                                  else Inr (True, w\<lparr>files :=
                                         fs2(d \<mapsto> Directory (filter (\<lambda>(k, v). take 1 k \<noteq> [''.git''])
                                                                 (dir_content fs2 d))),
                                         ext := x2\<rparr>)))"

text \<open>
  \<^verbatim>\<open>install_download(source, dest)\<close>. Only \<^verbatim>\<open>InstallError\<close> is caught around the
  request. The temporary directory holds \<^verbatim>\<open>repo.zip\<close> and the extracted files; the
  extracted folder is the first of its names that starts with the repository name and a
  dash (the pattern of the \<^verbatim>\<open>glob\<close>, for a repository name without wildcard
  characters).
\<close>

definition zip_url :: "source \<Rightarrow> string" where
  "zip_url source =
     ''https://codeload.github.com/'' @ owner source @ ''/'' @ repo source @ ''/zip/'' @ ref source"

definition install_download :: "'x env \<Rightarrow> source \<Rightarrow> fpath \<Rightarrow> 'x world \<Rightarrow> exn + (bool \<times> 'x world)" where
  "install_download E source dest w =
     (case github_request E (zip_url source) (ext w) of
           (Inl (InstallError e), x1) \<Rightarrow> Inr (False, w\<lparr>ext := x1\<rparr>)
         | (Inl e, x1) \<Rightarrow> Inl e
         | (Inr payload, x1) \<Rightarrow>
             (case unzip E payload of
                None \<Rightarrow> Inl BadZipFile
              | Some files1 \<Rightarrow>
                  let tmp = ([''repo.zip''], payload) # files1 in
                  (case find (\<lambda>n. startswith n (repo source @ ''-'')) (top_names tmp) of
                     None \<Rightarrow> Inr (False, w\<lparr>ext := x1\<rparr>)
                   | Some extracted \<Rightarrow>
                       let src_path = (if path source \<noteq> [] then extracted # parts_of (path source)
                                       else [extracted])
                       in if \<not> tree_exists tmp src_path then Inr (False, w\<lparr>ext := x1\<rparr>)
                          else
                            (case mkdir_p (files w) dest of
                               Inl e \<Rightarrow> Inl e
                             | Inr fs1 \<Rightarrow>
                                 if \<not> tree_dir tmp src_path then Inl NotADirectoryError
                                 else Inr (True, w\<lparr>files := copytree (subtree tmp src_path) fs1 dest,
                                                   ext := x1\<rparr>)))))"

text \<open>\<^verbatim>\<open>install_local(local_path, dest, symlink)\<close>.\<close>

definition install_local :: "fpath \<Rightarrow> fpath \<Rightarrow> bool \<Rightarrow> 'x world \<Rightarrow> exn + (bool \<times> 'x world)" where
  "install_local local_path dest symlink w =
     (if \<not> path_exists (files w) local_path then Inr (False, w)
      else if symlink then
        let fs1 = (if path_exists (files w) dest
                   then (if is_symlink (files w) dest then unlink (files w) dest
                         else rmtree (files w) dest)
                   else files w)
        in case symlink_to fs1 dest (resolved fs1 local_path) of
             Inl e \<Rightarrow> Inl e
           | Inr fs2 \<Rightarrow> Inr (True, w\<lparr>files := fs2\<rparr>)
      else
        (case mkdir_p (files w) dest of
           Inl e \<Rightarrow> Inl e
         | Inr fs1 \<Rightarrow> Inr (True, w\<lparr>files := copytree (dir_content fs1 local_path) fs1 dest\<rparr>)))"

section \<open>Agent detection\<close>

text \<open>The dataclass \<^verbatim>\<open>Agent\<close> and the registry \<^verbatim>\<open>AGENTS\<close>, whose paths hang off the
  home directory and, for codex, off \<^verbatim>\<open>CODEX_HOME\<close> when it is set.\<close>

record agent =
  name :: string
  display_name :: string
  skills_path :: fpath
  local_skills_dir :: string
  detect_cmd :: "string list option"
  detect_path :: "fpath option"
  builtin_install :: "string option"

definition AGENTS :: "'x env \<Rightarrow> agent list" where
  "AGENTS E =
     [\<lparr>name = ''claude'', display_name = ''Claude Code'',
       skills_path = joinpath (joinpath (home E) ''.claude'') ''skills'',
       local_skills_dir = ''.claude/skills'',
       detect_cmd = Some [''claude'', ''--version''], detect_path = None,
       builtin_install = Some ''claude skill install''\<rparr>,
      \<lparr>name = ''codex'', display_name = ''Codex'',
       skills_path = joinpath (case codex_home E of
                                 Some c \<Rightarrow> c
                               | None \<Rightarrow> joinpath (home E) ''.codex'') ''skills'',
       local_skills_dir = ''.codex/skills'',
       detect_cmd = Some [''codex'', ''--version''], detect_path = None,
       builtin_install = Some ''codex skill install''\<rparr>,
      \<lparr>name = ''opencode'', display_name = ''OpenCode'',
       skills_path = joinpath (joinpath (joinpath (home E) ''.config'') ''opencode'') ''skills'',
       local_skills_dir = ''.opencode/skills'',
       detect_cmd = Some [''opencode'', ''--version''], detect_path = None,
       builtin_install = None\<rparr>,
      \<lparr>name = ''cursor'', display_name = ''Cursor'',
       skills_path = joinpath (joinpath (home E) ''.cursor'') ''skills'',
       local_skills_dir = ''.cursor/skills'',
       detect_cmd = None, detect_path = Some (joinpath (home E) ''.cursor''),
       builtin_install = None\<rparr>,
      \<lparr>name = ''windsurf'', display_name = ''Windsurf'',
       skills_path = joinpath (joinpath (home E) ''.windsurf'') ''skills'',
       local_skills_dir = ''.windsurf/skills'',
       detect_cmd = None, detect_path = Some (joinpath (home E) ''.windsurf''),
       builtin_install = None\<rparr>,
      \<lparr>name = ''antigravity'', display_name = ''Antigravity'',
       skills_path = joinpath (joinpath (joinpath (home E) ''.gemini'') ''antigravity'') ''skills'',
       local_skills_dir = ''.agent/skills'',
       detect_cmd = None,
       detect_path = Some (joinpath (joinpath (home E) ''.gemini'') ''antigravity''),
       builtin_install = None\<rparr>]"

text \<open>The dictionary \<^verbatim>\<open>detect_agent\<close> returns for a detected agent.\<close>

record info =
  info_name :: string
  info_display_name :: string
  info_version :: string
  info_skills_path :: fpath
  info_local_skills_dir :: string
  info_builtin_install :: "string option"

text \<open>\<^verbatim>\<open>detect_agent(agent)\<close>: the version is the first line of what the version command
  prints when it exits with 0, else \<^verbatim>\<open>"detected"\<close> when the agent's path exists; an agent
  with no version, or an empty one, is not detected.\<close>

definition detect_agent :: "'x env \<Rightarrow> agent \<Rightarrow> fsys \<Rightarrow> 'x \<Rightarrow> info option" where
  "detect_agent E a fs x =
     (let version0 =
            (case detect_cmd a of
               None \<Rightarrow> None
             | Some [] \<Rightarrow> None
             | Some (c # cs) \<Rightarrow>
                 if which E x c then
                   (case probe E (c # cs) fs x of
                      (Exited rc, out) \<Rightarrow>
                        if rc = 0 then Some (hd (split_on CHR 0x0A (strip out))) else None
                    | (TimedOut, out) \<Rightarrow> None
                    | (NoSuchProgram, out) \<Rightarrow> None)
                 else None);
          version =
            (case detect_path a of
               None \<Rightarrow> version0
             | Some p \<Rightarrow>
                 if path_exists fs p
                 then (if truthy version0 then version0 else Some ''detected'')
                 else version0)
      in case version of
           None \<Rightarrow> None
         | Some v \<Rightarrow>
             if v \<noteq> [] then
               Some \<lparr>info_name = name a, info_display_name = display_name a, info_version = v,
                     info_skills_path = skills_path a,
                     info_local_skills_dir = local_skills_dir a,
                     info_builtin_install = builtin_install a\<rparr>
             else None)"

text \<open>\<^verbatim>\<open>detect_all()\<close>.\<close>

definition detect_all :: "'x env \<Rightarrow> fsys \<Rightarrow> 'x \<Rightarrow> info list" where
  "detect_all E fs x = List.map_filter (\<lambda>a. detect_agent E a fs x) (AGENTS E)"

text \<open>\<^verbatim>\<open>{a["name"]: a for a in detect_all()}\<close>: a dictionary in insertion order; a name
  met again keeps its place and takes the later value.\<close>

fun dict_set :: "string \<Rightarrow> 'v \<Rightarrow> (string \<times> 'v) list \<Rightarrow> (string \<times> 'v) list" where
  "dict_set k v [] = [(k, v)]"
| "dict_set k v ((k', v') # d) = (if k' = k then (k, v) # d else (k', v') # dict_set k v d)"

definition by_name :: "info list \<Rightarrow> (string \<times> info) list" where
  "by_name infos = foldl (\<lambda>d a. dict_set (info_name a) a d) [] infos"

text \<open>The test \<^verbatim>\<open>agents and agents != ["all"]\<close> of both scripts: the names asked
  for, when the caller asks for some.\<close>

definition requested :: "string list option \<Rightarrow> string list option" where
  "requested agents =
     (case agents of
        None \<Rightarrow> None
      | Some names \<Rightarrow> if names \<noteq> [] \<and> names \<noteq> [''all''] then Some names else None)"

section \<open>The installer\<close>

text \<open>What one pass of the loop over the targets records: an entry of
  \<^verbatim>\<open>results["installed"]\<close> with the path and \<^verbatim>\<open>method_used\<close>, of
  \<^verbatim>\<open>results["skipped"]\<close> with the reason and the path, or of \<^verbatim>\<open>results["failed"]\<close>
  with the path.\<close>

datatype outcome =
    Installed fpath "string option"
  | Skipped string fpath
  | Failed fpath

record results =
  installed :: "(string \<times> fpath \<times> string option) list"
  failed :: "(string \<times> fpath) list"
  skipped :: "(string \<times> string \<times> fpath) list"

definition record_outcome :: "string \<Rightarrow> outcome \<Rightarrow> results \<Rightarrow> results" where
  "record_outcome agent_name out r =
     (case out of
        Installed dest m \<Rightarrow> r\<lparr>installed := installed r @ [(agent_name, dest, m)]\<rparr>
      | Skipped reason dest \<Rightarrow> r\<lparr>skipped := skipped r @ [(agent_name, reason, dest)]\<rparr>
      | Failed dest \<Rightarrow> r\<lparr>failed := failed r @ [(agent_name, dest)]\<rparr>)"

text \<open>One strategy of the cascade in \<^verbatim>\<open>install_skill\<close>: when \<open>enabled\<close>, the strategy
  runs, \<^verbatim>\<open>success\<close> takes its value and \<^verbatim>\<open>method_used\<close> its name if it succeeded;
  the call and its value go to the log.\<close>

definition attempt ::
  "bool \<Rightarrow> string \<Rightarrow> ('x world \<Rightarrow> exn + (bool \<times> 'x world)) \<Rightarrow>
   bool \<times> string option \<times> 'x world \<Rightarrow> exn + (bool \<times> string option \<times> 'x world)" where
  "attempt enabled label strategy st =
     (case st of (success, method_used, w) \<Rightarrow>
        if enabled then
          (case strategy w of
             Inl e \<Rightarrow> Inl e
           | Inr (ok, w') \<Rightarrow>
               Inr (ok, (if ok then Some label else method_used),
                    w'\<lparr>calls := calls w' @ [(label, ok)]\<rparr>))
        else Inr (success, method_used, w))"

text \<open>The destination of a target: under the project's directory with \<^verbatim>\<open>--local\<close>,
  else under the agent's skills directory.\<close>

definition destination :: "'x env \<Rightarrow> bool \<Rightarrow> string \<Rightarrow> info \<Rightarrow> fpath" where
  "destination E local skill agent =
     (if local then joinpath (joinpath (cwd E) (info_local_skills_dir agent)) skill
      else joinpath (info_skills_path agent) skill)"

text \<open>The body of the loop \<^verbatim>\<open>for name, agent in target_agents.items()\<close> of
  \<^verbatim>\<open>install_skill\<close>. \<open>source\<close> is \<^verbatim>\<open>None\<close> for a local source.\<close>

definition install_agent ::
  "'x env \<Rightarrow> source option \<Rightarrow> fpath \<Rightarrow> string \<Rightarrow> bool \<Rightarrow> string \<Rightarrow> bool \<Rightarrow> info \<Rightarrow>
   'x world \<Rightarrow> exn + (outcome \<times> 'x world)" where
  "install_agent E source local_path skill symlink method local agent w =
     (let dest = destination E local skill agent in
      if path_exists (files w) dest \<and> \<not> symlink then Inr (Skipped ''Already exists'' dest, w)
      else if path_exists (files w) local_path then
        (case install_local local_path dest symlink w of
           Inl e \<Rightarrow> Inl e
         | Inr (success, w') \<Rightarrow>
             Inr (if success then Installed dest (Some (if symlink then ''symlink'' else ''copy''))
                  else Failed dest, w'))
      else
        (case source of
           None \<Rightarrow> Inr (Failed dest, w)
         | Some src \<Rightarrow>
             (case attempt (method \<in> {''auto'', ''builtin''} \<and> truthy (info_builtin_install agent))
                     ''builtin''
                     (install_builtin E src (case info_builtin_install agent of
                                               Some c \<Rightarrow> c | None \<Rightarrow> []))
                     (False, None, w) of
                Inl e \<Rightarrow> Inl e
              | Inr (s1, m1, w1) \<Rightarrow>
                  (case attempt (\<not> s1 \<and> method \<in> {''auto'', ''git''}) ''git''
                          (install_git_sparse E src dest) (s1, m1, w1) of
                     Inl e \<Rightarrow> Inl e
                   | Inr (s2, m2, w2) \<Rightarrow>
                       (case attempt (\<not> s2 \<and> method \<in> {''auto'', ''download''}) ''download''
                               (install_download E src dest) (s2, m2, w2) of
                          Inl e \<Rightarrow> Inl e
                        | Inr (s3, m3, w3) \<Rightarrow>
                            Inr (if s3 then Installed dest m3 else Failed dest, w3))))))"

fun install_loop ::
  "'x env \<Rightarrow> source option \<Rightarrow> fpath \<Rightarrow> string \<Rightarrow> bool \<Rightarrow> string \<Rightarrow> bool \<Rightarrow>
   (string \<times> info) list \<Rightarrow> results \<Rightarrow> 'x world \<Rightarrow> exn + (results \<times> 'x world)" where
  "install_loop E source local_path skill symlink method local [] r w = Inr (r, w)"
| "install_loop E source local_path skill symlink method local ((nm, agent) # rest) r w =
     (case install_agent E source local_path skill symlink method local agent w of
        Inl e \<Rightarrow> Inl e
      | Inr (out, w') \<Rightarrow>
          install_loop E source local_path skill symlink method local rest
            (record_outcome nm out r) w')"

text \<open>The first step of \<^verbatim>\<open>install_skill\<close>: an existing path is a local source, a string
  that starts with \<^verbatim>\<open>http\<close> goes to \<^verbatim>\<open>parse_github_url\<close>, anything else to
  \<^verbatim>\<open>parse_shorthand\<close>. The result is \<^verbatim>\<open>source\<close> and \<^verbatim>\<open>skill_name\<close>.\<close>

definition parse_source :: "'x env \<Rightarrow> string \<Rightarrow> fsys \<Rightarrow> exn + (source option \<times> string)" where
  "parse_source E source_str fs =
     (if path_exists fs source_str then Inr (None, path_name source_str)
      else
        (case (if startswith source_str ''http''
               then parse_github_url (urlparse E) source_str ''main''
               else parse_shorthand source_str ''main'') of
           Inl e \<Rightarrow> Inl e
         | Inr src \<Rightarrow> Inr (Some src, skill_name src)))"

text \<open>\<^verbatim>\<open>install_skill(source_str, agents, symlink, method, local)\<close>.\<close>

definition install_skill ::
  "'x env \<Rightarrow> string \<Rightarrow> string list option \<Rightarrow> bool \<Rightarrow> string \<Rightarrow> bool \<Rightarrow> 'x world \<Rightarrow>
   exn + (results \<times> 'x world)" where
  "install_skill E source_str agents symlink method local w =
     (case parse_source E source_str (files w) of
        Inl e \<Rightarrow> Inl e
      | Inr (source, skill) \<Rightarrow>
          let detected = by_name (detect_all E (files w) (ext w)) in
          if detected = [] then Inl (InstallError NoAgentsDetected)
          else
            (case requested agents of
               Some names \<Rightarrow>
                 let target_agents = filter (\<lambda>(k, v). k \<in> set names) detected in
                 if target_agents = [] then Inl (InstallError (NoneOfAgentsFound names))
                 else install_loop E source source_str skill symlink method local target_agents
                        \<lparr>installed = [], failed = [], skipped = []\<rparr> w
             | None \<Rightarrow>
                 install_loop E source source_str skill symlink method local detected
                   \<lparr>installed = [], failed = [], skipped = []\<rparr> w))"

text \<open>\<^verbatim>\<open>main(argv)\<close> of install.py after \<^verbatim>\<open>argparse\<close>: the exit status. An
  \<^verbatim>\<open>InstallError\<close> is printed and gives 1; any other exception leaves \<^verbatim>\<open>main\<close>.\<close>

definition exit_status :: "results \<Rightarrow> int" where
  "exit_status r = (if failed r \<noteq> [] \<and> installed r = [] then 1 else 0)"

definition agents_of_arg :: "string \<Rightarrow> string list" where
  "agents_of_arg agents_arg =
     (if agents_arg \<noteq> ''all'' then split_on CHR '','' agents_arg else [''all''])"

definition install_main ::
  "'x env \<Rightarrow> string \<Rightarrow> string \<Rightarrow> bool \<Rightarrow> bool \<Rightarrow> string \<Rightarrow> 'x world \<Rightarrow> exn + int" where
  "install_main E source_arg agents_arg symlink local method w =
     (case install_skill E source_arg (Some (agents_of_arg agents_arg)) symlink method local w of
        Inl (InstallError e) \<Rightarrow> Inr 1
      | Inl e \<Rightarrow> Inl e
      | Inr (r, w') \<Rightarrow> Inr (exit_status r))"

section \<open>The uninstaller\<close>

text \<open>\<^verbatim>\<open>uninstall_builtin(skill_name, agent)\<close>: the install command with every
  \<^verbatim>\<open>install\<close> replaced by \<^verbatim>\<open>remove\<close>, then the skill name, run with a timeout of 30
  seconds.\<close>

definition uninstall_builtin :: "'x env \<Rightarrow> string \<Rightarrow> info \<Rightarrow> 'x world \<Rightarrow> bool \<times> 'x world" where
  "uninstall_builtin E skill agent w =
     (case info_builtin_install agent of
        None \<Rightarrow> (False, w)
      | Some c \<Rightarrow>
          if c = [] then (False, w)
          else
            let cmd_parts = words (replace ''install'' ''remove'' c);
                cmd = cmd_parts @ [skill]
            in case native E cmd (files w) (ext w) of
                 (Exited rc, fs', x') \<Rightarrow> (rc = 0, w\<lparr>files := fs', ext := x'\<rparr>)
               | (TimedOut, fs', x') \<Rightarrow> (False, w\<lparr>files := fs', ext := x'\<rparr>)
               | (NoSuchProgram, fs', x') \<Rightarrow> (False, w\<lparr>files := fs', ext := x'\<rparr>))"

datatype removal =
    Removed fpath "string option"
  | NotFound fpath

record uresults =
  removed :: "(string \<times> fpath \<times> string option) list"
  not_found :: "(string \<times> fpath) list"

definition record_removal :: "string \<Rightarrow> removal \<Rightarrow> uresults \<Rightarrow> uresults" where
  "record_removal agent_name out r =
     (case out of
        Removed p m \<Rightarrow> r\<lparr>removed := removed r @ [(agent_name, p, m)]\<rparr>
      | NotFound p \<Rightarrow> r\<lparr>not_found := not_found r @ [(agent_name, p)]\<rparr>)"

text \<open>The body of the loop of \<^verbatim>\<open>uninstall_skill\<close>.\<close>

definition uninstall_agent :: "'x env \<Rightarrow> string \<Rightarrow> info \<Rightarrow> 'x world \<Rightarrow> removal \<times> 'x world" where
  "uninstall_agent E skill agent w =
     (let skill_path = joinpath (info_skills_path agent) skill;
          (removed1, method1, w1) =
            (if truthy (info_builtin_install agent) then
               (case uninstall_builtin E skill agent w of
                  (ok, w') \<Rightarrow> if ok then (True, Some ''builtin'', w') else (False, None, w'))
             else (False, None, w));
          (removed2, method2, w2) =
            (if \<not> removed1 \<and> path_exists (files w1) skill_path then
               (True, Some ''file'',
                w1\<lparr>files := (if is_symlink (files w1) skill_path then unlink (files w1) skill_path
                               else rmtree (files w1) skill_path)\<rparr>)
             else (removed1, method1, w1))
      in (if removed2 then Removed skill_path method2 else NotFound skill_path, w2))"

fun uninstall_loop ::
  "'x env \<Rightarrow> string \<Rightarrow> (string \<times> info) list \<Rightarrow> uresults \<Rightarrow> 'x world \<Rightarrow> uresults \<times> 'x world" where
  "uninstall_loop E skill [] r w = (r, w)"
| "uninstall_loop E skill ((nm, agent) # rest) r w =
     (case uninstall_agent E skill agent w of
        (out, w') \<Rightarrow> uninstall_loop E skill rest (record_removal nm out r) w')"

text \<open>\<^verbatim>\<open>uninstall_skill(skill_name, agents)\<close>.\<close>

definition uninstall_skill ::
  "'x env \<Rightarrow> string \<Rightarrow> string list option \<Rightarrow> 'x world \<Rightarrow> uresults \<times> 'x world" where
  "uninstall_skill E skill agents w =
     (let detected = by_name (detect_all E (files w) (ext w)) in
      if detected = [] then (\<lparr>removed = [], not_found = []\<rparr>, w)
      else
        let target_agents =
              (case requested agents of
                 Some names \<Rightarrow> filter (\<lambda>(k, v). k \<in> set names) detected
               | None \<Rightarrow> detected)
        in uninstall_loop E skill target_agents \<lparr>removed = [], not_found = []\<rparr> w)"

text \<open>\<^verbatim>\<open>main(argv)\<close> of uninstall.py after \<^verbatim>\<open>argparse\<close>: the exit status.\<close>

definition uninstall_main :: "'x env \<Rightarrow> string \<Rightarrow> string \<Rightarrow> 'x world \<Rightarrow> int" where
  "uninstall_main E skill agents_arg w =
     (case uninstall_skill E skill (Some (agents_of_arg agents_arg)) w of
        (r, w') \<Rightarrow> if removed r \<noteq> [] then 0 else 1)"

section \<open>A concrete environment\<close>

text \<open>
  The run the properties below are tried on: a home directory \<^verbatim>\<open>/home/u\<close> with nothing
  installed, \<^verbatim>\<open>git\<close> and \<^verbatim>\<open>claude\<close> on the search path, a repository
  \<^verbatim>\<open>acme/toolkit\<close> whose branch \<^verbatim>\<open>main\<close> holds the skill \<^verbatim>\<open>packs/search\<close>, an archive
  endpoint that serves it, and agent tools that exit with 0 and place nothing under the
  skills directories. Single answers are changed where a property needs a failure.
  \<open>demo_urlparse\<close> splits a URL of the form \<^verbatim>\<open>https://host/path\<close> into host and
  path.
\<close>

definition demo_urlparse :: "string \<Rightarrow> string \<times> string" where
  "demo_urlparse url =
     (let rest = drop (length ''https://'') url
      in (takeWhile (\<lambda>c. c \<noteq> CHR ''/'') rest, dropWhile (\<lambda>c. c \<noteq> CHR ''/'') rest))"

definition demo_env :: "unit env" where
  "demo_env =
     \<lparr>home = ''/home/u'', cwd = ''/work'', codex_home = None, github_token = None,
      gh_token = None,
      urlparse = demo_urlparse,
      which = (\<lambda>x c. c = ''git'' \<or> c = ''claude''),
      probe = (\<lambda>cmd fs x. (Exited 0, ''1.0'')),
      native = (\<lambda>cmd fs x. (Exited 0, fs, x)),
      git_clone = (\<lambda>url r x.
        ((Exited 0, [([''packs'', ''search'', ''SKILL.md''], ''# search'')]), x)),
      git_sparse_set = (\<lambda>p t x. ((Exited 0, t), x)),
      urlopen = (\<lambda>url auth x. (Response 200 ''OK'' ''PK'', x)),
      unzip = (\<lambda>b. Some [([''toolkit-main'', ''packs'', ''search'', ''SKILL.md''], ''# search'')])\<rparr>"

definition demo_world :: "unit world" where
  "demo_world = \<lparr>files = (\<lambda>p. None), ext = (), calls = []\<rparr>"

definition demo_source :: source where
  "demo_source = \<lparr>owner = ''acme'', repo = ''toolkit'', ref = ''main'', path = ''packs/search'',
                   skill_name = ''search''\<rparr>"

definition claude_info :: info where
  "claude_info = \<lparr>info_name = ''claude'', info_display_name = ''Claude Code'',
                   info_version = ''1.0'', info_skills_path = ''/home/u/.claude/skills'',
                   info_local_skills_dir = ''.claude/skills'',
                   info_builtin_install = Some ''claude skill install''\<rparr>"

definition cursor_info :: info where
  "cursor_info = \<lparr>info_name = ''cursor'', info_display_name = ''Cursor'',
                   info_version = ''detected'', info_skills_path = ''/home/u/.cursor/skills'',
                   info_local_skills_dir = ''.cursor/skills'',
                   info_builtin_install = None\<rparr>"

definition placing_env :: "unit env" where
  "placing_env =
     demo_env\<lparr>native := (\<lambda>cmd fs x.
       (Exited 0, fs(''/home/u/.claude/skills/search'' \<mapsto> Directory [([''SKILL.md''], ''# search'')]),
        x))\<rparr>"

definition placed_world :: "unit world" where
  "placed_world =
     \<lparr>files = (\<lambda>p. None)(''/home/u/.claude/skills/search'' \<mapsto>
                Directory [([''SKILL.md''], ''# search'')]),
      ext = (), calls = [(''builtin'', True)]\<rparr>"

definition installed_world :: "unit world" where
  "installed_world =
     \<lparr>files = (\<lambda>p. None)(''/home/u/.cursor/skills/search'' \<mapsto>
                Directory [([''SKILL.md''], ''# search'')]),
      ext = (), calls = [(''git'', True)]\<rparr>"

definition two_agents_world :: "unit world" where
  "two_agents_world =
     \<lparr>files = (\<lambda>p. None)(''/home/u/.cursor'' \<mapsto> Directory []), ext = (), calls = []\<rparr>"


section \<open>Properties of the parsers\<close>

lemma split_by_nonempty: "split_by p s \<noteq> []"
  by (induction s) (auto split: list.splits)

lemma split_by_no_sep: "\<forall>x \<in> set s. \<not> p x \<Longrightarrow> split_by p s = [s]"
  by (induction s) auto

lemma split_by_append_sep:
  "\<forall>x \<in> set s. \<not> p x \<Longrightarrow> p c \<Longrightarrow> split_by p (s @ c # t) = s # split_by p t"
  by (induction s) (auto split: list.splits)

lemma split_on_join:
  "\<forall>s \<in> set (x # xs). c \<notin> set s \<Longrightarrow> split_on c (join [c] (x # xs)) = x # xs"
proof (induction xs arbitrary: x)
  case Nil
  then show ?case by (auto simp: split_on_def intro!: split_by_no_sep)
next
  case (Cons y ys)
  have "split_by (\<lambda>a. a = c) (x @ c # join [c] (y # ys)) = x # split_by (\<lambda>a. a = c) (join [c] (y # ys))"
    using Cons.prems by (intro split_by_append_sep) auto
  moreover have "split_on c (join [c] (y # ys)) = y # ys"
    using Cons.prems by (intro Cons.IH) auto
  ultimately show ?case by (simp add: split_on_def)
qed

lemma split_on_no_sep: "c \<notin> set s \<Longrightarrow> split_on c s = [s]"
  by (auto simp: split_on_def intro!: split_by_no_sep)

text \<open>
  Claim C5. A shorthand \<^verbatim>\<open>owner/repo/seg/...\<close>, the segments free of slashes and at
  least one segment after the repository, parses to a descriptor whose subpath is the
  segments after the repository joined by slashes, whose derived name is the last
  segment and whose ref is the default passed in. A shorthand with fewer than two
  slash-separated segments, that is one with no slash, is refused with the
  \<^verbatim>\<open>InstallError\<close> of an invalid shorthand.
\<close>

theorem parse_shorthand_subpath:
  "((\<forall>s \<in> set (ow # rp # seg # segs). CHR ''/'' \<notin> set s) \<longrightarrow>
      parse_shorthand (join ''/'' (ow # rp # seg # segs)) dflt =
        Inr \<lparr>owner = ow, repo = rp, ref = dflt, path = join ''/'' (seg # segs),
             skill_name = last (seg # segs)\<rparr>) \<and>
   (CHR ''/'' \<notin> set sh \<longrightarrow> parse_shorthand sh dflt = Inl (InstallError InvalidShorthand))"
proof (intro conjI impI)
  assume free: "\<forall>s \<in> set (ow # rp # seg # segs). CHR ''/'' \<notin> set s"
  have "split_on CHR ''/'' (join ''/'' (ow # rp # seg # segs)) = ow # rp # seg # segs"
    using free by (rule split_on_join)
  then show "parse_shorthand (join ''/'' (ow # rp # seg # segs)) dflt =
     Inr \<lparr>owner = ow, repo = rp, ref = dflt, path = join ''/'' (seg # segs),
          skill_name = last (seg # segs)\<rparr>"
    by (simp add: parse_shorthand_def Let_def)
next
  assume "CHR ''/'' \<notin> set sh"
  then show "parse_shorthand sh dflt = Inl (InstallError InvalidShorthand)"
    by (simp add: parse_shorthand_def split_on_no_sep)
qed

theorem parse_shorthand_subpath_witness:
  "parse_shorthand ''owner/repo/sub/path'' ''main'' =
     Inr \<lparr>owner = ''owner'', repo = ''repo'', ref = ''main'', path = ''sub/path'',
          skill_name = ''path''\<rparr> \<and>
   parse_shorthand ''owner'' ''main'' = Inl (InstallError InvalidShorthand)"
  using parse_shorthand_subpath [of "''owner''" "''repo''" "''sub''" "[''path'']" "''main''" "''owner''"]
  by simp

text \<open>The derived name of a repository URL is a component of the URL's path: it is
  not empty and holds no slash.\<close>

lemma split_by_free: "\<forall>t \<in> set (split_by p s). \<forall>x \<in> set t. \<not> p x"
  by (induction s) (auto split: if_splits list.splits)

lemma rstrip_id: "s \<noteq> [] \<Longrightarrow> last s \<noteq> c \<Longrightarrow> rstrip c s = s"
  by (cases s rule: rev_cases) (auto simp: rstrip_def)

lemma join_last:
  "xs \<noteq> [] \<Longrightarrow> last xs \<noteq> [] \<Longrightarrow> join sep xs \<noteq> [] \<and> last (join sep xs) = last (last xs)"
  by (induction sep xs rule: join.induct) auto

lemma name_of_subpath:
  assumes good: "\<forall>t \<in> set ps. t \<noteq> [] \<and> CHR ''/'' \<notin> set t" and ne: "ps \<noteq> []"
  shows "join ''/'' ps \<noteq> [] \<and>
         last (split_on CHR ''/'' (rstrip CHR ''/'' (join ''/'' ps))) = last ps"
proof -
  have l: "last ps \<noteq> [] \<and> CHR ''/'' \<notin> set (last ps)" using good ne by simp
  then have j: "join ''/'' ps \<noteq> [] \<and> last (join ''/'' ps) = last (last ps)"
    using ne by (simp add: join_last)
  moreover have "last (last ps) \<noteq> CHR ''/''" using l by (metis last_in_set)
  ultimately have "rstrip CHR ''/'' (join ''/'' ps) = join ''/'' ps" by (simp add: rstrip_id)
  moreover obtain x xs where "ps = x # xs" using ne by (cases ps) auto
  ultimately show ?thesis using good j split_on_join [of x xs "CHR ''/''"] by simp
qed

lemma parse_github_url_name:
  assumes "parse_github_url up url dflt = Inr src"
  shows "skill_name src \<noteq> [] \<and> CHR ''/'' \<notin> set (skill_name src)"
proof -
  obtain netloc urlpath where up: "up url = (netloc, urlpath)" by (cases "up url")
  define parts where "parts = filter (\<lambda>p. p \<noteq> []) (split_on CHR ''/'' urlpath)"
  have good: "\<forall>t \<in> set parts. t \<noteq> [] \<and> CHR ''/'' \<notin> set t"
    using split_by_free [of "\<lambda>x. x = CHR ''/''" urlpath] by (auto simp: parts_def split_on_def)
  have sub: "\<And>k. \<forall>t \<in> set (drop k parts). t \<noteq> [] \<and> CHR ''/'' \<notin> set t"
    using good by (meson in_set_dropD)
  have tail: "skill_name src \<in> set parts"
  proof (cases "length parts > 2")
    case False
    then show ?thesis using assms up
      by (auto simp: parse_github_url_def Let_def parts_def [symmetric] split: if_splits)
  next
    case True
    show ?thesis
    proof (cases "parts ! 2 \<in> {''tree'', ''blob''}")
      case tb: True
      show ?thesis
      proof (cases "drop 4 parts = []")
        case True
        then have "join ''/'' (drop 4 parts) = []" by simp
        then show ?thesis using assms up tb \<open>length parts > 2\<close>
          by (auto simp: parse_github_url_def Let_def parts_def [symmetric] split: if_splits)
      next
        case False
        from name_of_subpath [OF sub [of 4] False]
        have "join ''/'' (drop 4 parts) \<noteq> []"
          and "last (split_on CHR ''/'' (rstrip CHR ''/'' (join ''/'' (drop 4 parts)))) =
               last (drop 4 parts)"
          by auto
        moreover have "last (drop 4 parts) \<in> set parts"
          using False by (metis in_set_dropD last_in_set)
        ultimately show ?thesis using assms up tb \<open>length parts > 2\<close>
          by (auto simp: parse_github_url_def Let_def parts_def [symmetric] split: if_splits)
      qed
    next
      case ntb: False
      have ne: "drop 2 parts \<noteq> []" using True by simp
      from name_of_subpath [OF sub [of 2] ne]
      have "join ''/'' (drop 2 parts) \<noteq> []"
        and "last (split_on CHR ''/'' (rstrip CHR ''/'' (join ''/'' (drop 2 parts)))) =
             last (drop 2 parts)"
        by auto
      moreover have "last (drop 2 parts) \<in> set parts"
        using ne by (metis in_set_dropD last_in_set)
      ultimately show ?thesis using assms up ntb True
        by (auto simp: parse_github_url_def Let_def parts_def [symmetric] split: if_splits)
    qed
  qed
  show ?thesis using good tail by blast
qed

lemma parse_github_url_example:
  "parse_github_url demo_urlparse ''https://github.com/acme/toolkit/tree/dev/packs/search''
     ''main'' =
     Inr \<lparr>owner = ''acme'', repo = ''toolkit'', ref = ''dev'', path = ''packs/search'',
          skill_name = ''search''\<rparr>"
  by (simp add: parse_github_url_def demo_urlparse_def split_on_def rstrip_def Let_def)

text \<open>
  Claim C6 says that no accepted source string gives an empty derived name. For
  repository URLs that is \<open>parse_github_url_name\<close> above. \<^verbatim>\<open>parse_shorthand\<close> does not
  drop empty segments as \<^verbatim>\<open>parse_github_url\<close> does: the shorthand \<^verbatim>\<open>owner/repo/\<close> is
  accepted with an empty derived name, and \<^verbatim>\<open>owner/repo/sub/\<close> with the subpath
  \<^verbatim>\<open>sub/\<close> and an empty derived name, where the last non-empty segment is \<^verbatim>\<open>sub\<close>.
\<close>

theorem parse_shorthand_empty_name:
  "parse_shorthand ''owner/repo/'' ''main'' =
     Inr \<lparr>owner = ''owner'', repo = ''repo'', ref = ''main'', path = [], skill_name = []\<rparr> \<and>
   parse_shorthand ''owner/repo/sub/'' ''main'' =
     Inr \<lparr>owner = ''owner'', repo = ''repo'', ref = ''main'', path = ''sub/'',
          skill_name = []\<rparr>"
  by (simp add: parse_shorthand_def split_on_def Let_def)

section \<open>Properties of the file system operations\<close>

lemma follow_numeral:
  "follow (numeral k) fs p =
     (case fs p of
        None \<Rightarrow> None
      | Some (Directory t) \<Rightarrow> Some p
      | Some (Symlink q) \<Rightarrow> follow (pred_numeral k) fs q)"
  by (simp add: numeral_eq_Suc)

lemma resolve_simps:
  "fs p = None \<Longrightarrow> resolve fs p = None"
  "fs p = Some (Directory t) \<Longrightarrow> resolve fs p = Some p"
  "fs p = Some (Symlink q) \<Longrightarrow> resolve fs p = follow 40 fs q"
  by (simp_all add: resolve_def follow_numeral)

lemma follow_dir: "follow n fs p = Some d \<Longrightarrow> \<exists>t. fs d = Some (Directory t)"
  by (induction n arbitrary: p) (auto split: option.splits entry.splits)

lemma follow_upd_dir:
  "fs d = Some (Directory t) \<Longrightarrow> follow n (fs(d \<mapsto> Directory t')) p = follow n fs p"
  by (induction n arbitrary: p) (auto split: option.splits entry.splits)

lemma path_exists_upd_dir:
  "fs d = Some (Directory t) \<Longrightarrow> path_exists (fs(d \<mapsto> Directory t')) p = path_exists fs p"
  by (simp add: path_exists_def resolve_def follow_upd_dir del: follow.simps)

lemma resolved_dir: "path_exists fs p \<Longrightarrow> \<exists>t. fs (resolved fs p) = Some (Directory t)"
  unfolding path_exists_def resolved_def resolve_def
  using follow_dir by (fastforce split: option.splits)

lemma path_exists_upd_resolved:
  "path_exists fs p \<Longrightarrow> path_exists (fs(resolved fs p \<mapsto> Directory t')) q = path_exists fs q"
  using resolved_dir [of fs p] by (auto simp: path_exists_upd_dir)

lemma mkdir_p_exists: "mkdir_p fs p = Inr fs1 \<Longrightarrow> path_exists fs1 p"
  by (auto simp: mkdir_p_def path_exists_def resolve_simps split: option.splits if_splits)

lemma copytree_exists: "path_exists fs p \<Longrightarrow> path_exists (copytree src fs dest) p"
proof (cases "resolve fs dest")
  case None
  then show "path_exists fs p \<Longrightarrow> ?thesis" by (simp add: copytree_def)
next
  case (Some d)
  then obtain t where "fs d = Some (Directory t)"
    unfolding resolve_def using follow_dir by blast
  then show "path_exists fs p \<Longrightarrow> ?thesis"
    using Some by (simp add: copytree_def path_exists_upd_dir)
qed

section \<open>Properties of the acquisition strategies\<close>

text \<open>No strategy touches the log of calls, and a strategy that writes the destination
  and returns true leaves the destination in place.\<close>

lemma install_builtin_calls: "install_builtin E src c w = Inr (b, w') \<Longrightarrow> calls w' = calls w"
  by (auto simp: install_builtin_def Let_def split: prod.splits proc.splits)

lemma install_git_sparse_calls:
  "install_git_sparse E src dest w = Inr (b, w') \<Longrightarrow> calls w' = calls w"
  by (auto simp: install_git_sparse_def Let_def
           split: prod.splits option.splits exn.splits sum.splits if_splits)

lemma install_download_calls:
  "install_download E src dest w = Inr (b, w') \<Longrightarrow> calls w' = calls w"
  by (auto simp: install_download_def Let_def
           split: prod.splits option.splits exn.splits sum.splits if_splits)


lemma install_git_sparse_exists:
  "install_git_sparse E src dest w = Inr (True, w') \<Longrightarrow> path_exists (files w') dest"
  by (auto simp: install_git_sparse_def Let_def mkdir_p_exists copytree_exists
                 path_exists_upd_resolved
           split: prod.splits option.splits exn.splits sum.splits if_splits)

lemma install_download_exists:
  "install_download E src dest w = Inr (True, w') \<Longrightarrow> path_exists (files w') dest"
  by (auto simp: install_download_def Let_def mkdir_p_exists copytree_exists
           split: prod.splits option.splits exn.splits sum.splits if_splits)

lemma install_local_copy_exists:
  "install_local lp dest False w = Inr (True, w') \<Longrightarrow> path_exists (files w') dest"
  by (auto simp: install_local_def Let_def mkdir_p_exists copytree_exists
           split: prod.splits option.splits exn.splits sum.splits if_splits)

text \<open>Native delegation returns a boolean whatever the agent's command does.\<close>

lemma install_builtin_total: "\<exists>b w'. install_builtin E src c w = Inr (b, w')"
  by (auto simp: install_builtin_def Let_def split: prod.splits proc.splits)

text \<open>
  Claim C1 says that each strategy returns a boolean for every ordinary failure. Native
  delegation does (\<open>install_builtin_total\<close>). The other two do not: in
  \<^verbatim>\<open>install_git_sparse\<close> the narrowing command runs with \<^verbatim>\<open>check=True\<close> outside the
  \<^verbatim>\<open>try\<close> that guards the clone, so a \<^verbatim>\<open>git sparse-checkout set\<close> that exits with 128
  raises \<^verbatim>\<open>CalledProcessError\<close>; the clone's \<^verbatim>\<open>except\<close> names \<^verbatim>\<open>CalledProcessError\<close>
  only, so a clone that runs into its timeout of 60 seconds raises \<^verbatim>\<open>TimeoutExpired\<close>;
  and \<^verbatim>\<open>github_request\<close> catches \<^verbatim>\<open>HTTPError\<close> only, so a download with no network
  raises \<^verbatim>\<open>URLError\<close>. (\<open>install_main_crash\<close> follows the first of these up to
  \<^verbatim>\<open>main\<close>.)
\<close>

theorem strategies_raise:
  "install_git_sparse (demo_env\<lparr>git_sparse_set := (\<lambda>p t x. ((Exited 128, t), x))\<rparr>)
     demo_source ''/home/u/.claude/skills/search'' demo_world = Inl CalledProcessError \<and>
   install_git_sparse (demo_env\<lparr>git_clone := (\<lambda>u r x. ((TimedOut, []), x))\<rparr>)
     demo_source ''/home/u/.claude/skills/search'' demo_world = Inl TimeoutExpired \<and>
   install_download (demo_env\<lparr>urlopen := (\<lambda>u a x. (Unreachable, x))\<rparr>)
     demo_source ''/home/u/.claude/skills/search'' demo_world = Inl URLError"
  by (simp add: install_git_sparse_def install_download_def github_request_def demo_env_def
                demo_source_def demo_world_def check_run_def)


text \<open>
  Claim C7. When the request of the archive download ends in a status of 400 or more,
  \<^verbatim>\<open>install_download\<close> returns false and the file system is the one it started from:
  nothing is created or changed at the destination (only the state outside has moved,
  by the request). A target that is neither skipped nor served from a local path, with
  the method \<^verbatim>\<open>download\<close> forced, then calls this strategy alone and is recorded as
  failed, the file system still unchanged.
\<close>

theorem install_download_http_error:
  assumes "urlopen E (zip_url src) (auth_header E) (ext w) = (Response code reason body, x')"
    and "400 \<le> code"
  shows "install_download E src dest w = Inr (False, w\<lparr>ext := x'\<rparr>) \<and>
         files (w\<lparr>ext := x'\<rparr>) = files w \<and>
         (\<not> (path_exists (files w) (destination E local skill agent) \<and> \<not> symlink) \<and>
          \<not> path_exists (files w) lp \<longrightarrow>
            install_agent E (Some src) lp skill symlink ''download'' local agent w =
              Inr (Failed (destination E local skill agent),
                   w\<lparr>ext := x', calls := calls w @ [(''download'', False)]\<rparr>))"
proof -
  have d: "\<And>dst. install_download E src dst w = Inr (False, w\<lparr>ext := x'\<rparr>)"
    using assms by (simp add: install_download_def github_request_def)
  show ?thesis
    using d by (auto simp: install_agent_def attempt_def Let_def)
qed

theorem install_download_http_error_witness:
  "install_download (demo_env\<lparr>urlopen := (\<lambda>u a x. (Response 404 ''Not Found'' [], x))\<rparr>)
     demo_source ''/home/u/.cursor/skills/search'' demo_world = Inr (False, demo_world) \<and>
   install_agent (demo_env\<lparr>urlopen := (\<lambda>u a x. (Response 404 ''Not Found'' [], x))\<rparr>)
     (Some demo_source) ''acme/toolkit/packs/search'' ''search'' False ''download'' False
     cursor_info demo_world =
     Inr (Failed ''/home/u/.cursor/skills/search'', demo_world\<lparr>calls := [(''download'', False)]\<rparr>)"
proof -
  let ?E = "demo_env\<lparr>urlopen := (\<lambda>u a x. (Response 404 ''Not Found'' [], x))\<rparr>"
  have h: "urlopen ?E (zip_url demo_source) (auth_header ?E) (ext demo_world) =
             (Response 404 ''Not Found'' [], ())"
    by simp
  have free: "\<not> path_exists (files demo_world) ''/home/u/.cursor/skills/search'' \<and>
              \<not> path_exists (files demo_world) ''acme/toolkit/packs/search''"
    by (simp add: demo_world_def path_exists_def resolve_simps)
  have dest: "destination ?E False ''search'' cursor_info = ''/home/u/.cursor/skills/search''"
    by (simp add: destination_def cursor_info_def joinpath_def)
  from install_download_http_error [OF h, of "''/home/u/.cursor/skills/search''" False
      "''search''" cursor_info False "''acme/toolkit/packs/search''"] free dest
  show ?thesis by (simp add: demo_world_def)
qed

section \<open>Properties of the installer\<close>

lemma attempt_result:
  assumes "attempt en l f (s, m, w) = Inr (s', m', w')"
  shows "(\<not> en \<and> s' = s \<and> m' = m \<and> w' = w) \<or>
         (en \<and> (\<exists>v. f w = Inr (s', v) \<and> w' = v\<lparr>calls := calls v @ [(l, s')]\<rparr>) \<and>
          m' = (if s' then Some l else m))"
  using assms by (auto simp: attempt_def split: if_splits sum.splits prod.splits)

lemma attempt_calls:
  assumes "attempt en l f (s, m, w) = Inr (s', m', w')"
    and "\<forall>b v. f w = Inr (b, v) \<longrightarrow> calls v = calls w"
  shows "(\<not> en \<and> s' = s \<and> m' = m \<and> w' = w) \<or>
         (en \<and> calls w' = calls w @ [(l, s')] \<and> m' = (if s' then Some l else m))"
  using assms by (auto simp: attempt_def split: if_splits sum.splits prod.splits)

text \<open>The three attempts behind a target that is neither skipped nor local.\<close>

lemma install_agent_attempts:
  assumes run: "install_agent E (Some src) lp skill symlink method local agent w = Inr (out, w')"
    and not_skipped: "\<not> (path_exists (files w) (destination E local skill agent) \<and> \<not> symlink)"
    and remote: "\<not> path_exists (files w) lp"
  shows "\<exists>s1 m1 w1 s2 m2 w2 s3 m3.
      attempt (method \<in> {''auto'', ''builtin''} \<and> truthy (info_builtin_install agent)) ''builtin''
        (install_builtin E src (case info_builtin_install agent of Some c \<Rightarrow> c | None \<Rightarrow> []))
        (False, None, w) = Inr (s1, m1, w1) \<and>
      attempt (\<not> s1 \<and> method \<in> {''auto'', ''git''}) ''git''
        (install_git_sparse E src (destination E local skill agent)) (s1, m1, w1) =
        Inr (s2, m2, w2) \<and>
      attempt (\<not> s2 \<and> method \<in> {''auto'', ''download''}) ''download''
        (install_download E src (destination E local skill agent)) (s2, m2, w2) =
        Inr (s3, m3, w') \<and>
      out = (if s3 then Installed (destination E local skill agent) m3
             else Failed (destination E local skill agent))"
  using run not_skipped remote unfolding install_agent_def Let_def
  by (auto split: sum.splits prod.splits)

text \<open>
  Claim C2, for a repository source and a target that is neither skipped nor served
  from a local path, whenever the pass over the target returns. The log gains the calls
  of this pass, in order, each with the value the strategy returned.
  \<^item> With the method \<^verbatim>\<open>auto\<close> the calls are: native delegation, if the agent has a
    command, then sparse checkout, then archive download, and the pass stops at the first
    that returns true, recording the target as installed with that strategy's name
    (\<^verbatim>\<open>builtin\<close>, \<^verbatim>\<open>git\<close>, \<^verbatim>\<open>download\<close>). The target is recorded as failed only
    after sparse checkout and archive download have both been called and returned false.
  \<^item> With one strategy named as the method, that strategy is the only one called, once;
    native delegation is not called for an agent that has no command.
\<close>

theorem install_agent_cascade:
  assumes run: "install_agent E (Some src) lp skill symlink method local agent w = Inr (out, w')"
    and not_skipped: "\<not> (path_exists (files w) (destination E local skill agent) \<and> \<not> symlink)"
    and remote: "\<not> path_exists (files w) lp"
  shows
    "(method = ''auto'' \<longrightarrow>
        (let dest = destination E local skill agent;
             b = (if truthy (info_builtin_install agent) then [(''builtin'', False)] else [])
         in (truthy (info_builtin_install agent) \<and> calls w' = calls w @ [(''builtin'', True)] \<and>
               out = Installed dest (Some ''builtin'')) \<or>
            (calls w' = calls w @ b @ [(''git'', True)] \<and> out = Installed dest (Some ''git'')) \<or>
            (calls w' = calls w @ b @ [(''git'', False), (''download'', True)] \<and>
               out = Installed dest (Some ''download'')) \<or>
            (calls w' = calls w @ b @ [(''git'', False), (''download'', False)] \<and>
               out = Failed dest))) \<and>
     (method \<in> {''builtin'', ''git'', ''download''} \<longrightarrow>
        (let dest = destination E local skill agent
         in (method = ''builtin'' \<and> \<not> truthy (info_builtin_install agent) \<and> calls w' = calls w \<and>
               out = Failed dest) \<or>
            (calls w' = calls w @ [(method, True)] \<and> out = Installed dest (Some method)) \<or>
            (calls w' = calls w @ [(method, False)] \<and> out = Failed dest)))"
proof -
  define dest where "dest = destination E local skill agent"
  define c where "c = (case info_builtin_install agent of Some c \<Rightarrow> c | None \<Rightarrow> [])"
  from install_agent_attempts [OF run not_skipped remote]
  obtain s1 m1 w1 s2 m2 w2 s3 m3 where
    a1: "attempt (method \<in> {''auto'', ''builtin''} \<and> truthy (info_builtin_install agent)) ''builtin''
           (install_builtin E src c) (False, None, w) = Inr (s1, m1, w1)" and
    a2: "attempt (\<not> s1 \<and> method \<in> {''auto'', ''git''}) ''git''
           (install_git_sparse E src dest) (s1, m1, w1) = Inr (s2, m2, w2)" and
    a3: "attempt (\<not> s2 \<and> method \<in> {''auto'', ''download''}) ''download''
           (install_download E src dest) (s2, m2, w2) = Inr (s3, m3, w')" and
    out: "out = (if s3 then Installed dest m3 else Failed dest)"
    unfolding dest_def c_def by blast
  have c1: "(\<not> (method \<in> {''auto'', ''builtin''} \<and> truthy (info_builtin_install agent)) \<and>
               \<not> s1 \<and> m1 = None \<and> w1 = w) \<or>
            (method \<in> {''auto'', ''builtin''} \<and> truthy (info_builtin_install agent) \<and>
               calls w1 = calls w @ [(''builtin'', s1)] \<and>
               m1 = (if s1 then Some ''builtin'' else None))"
    using attempt_calls [OF a1] install_builtin_calls by blast
  have c2: "(\<not> (\<not> s1 \<and> method \<in> {''auto'', ''git''}) \<and> s2 = s1 \<and> m2 = m1 \<and> w2 = w1) \<or>
            (\<not> s1 \<and> method \<in> {''auto'', ''git''} \<and>
               calls w2 = calls w1 @ [(''git'', s2)] \<and> m2 = (if s2 then Some ''git'' else m1))"
    using attempt_calls [OF a2] install_git_sparse_calls by blast
  have c3: "(\<not> (\<not> s2 \<and> method \<in> {''auto'', ''download''}) \<and> s3 = s2 \<and> m3 = m2 \<and> w' = w2) \<or>
            (\<not> s2 \<and> method \<in> {''auto'', ''download''} \<and>
               calls w' = calls w2 @ [(''download'', s3)] \<and>
               m3 = (if s3 then Some ''download'' else m2))"
    using attempt_calls [OF a3] install_download_calls by blast
  show ?thesis
  proof (intro conjI impI)
    assume "method = ''auto''"
    then show "let dest = destination E local skill agent;
             b = (if truthy (info_builtin_install agent) then [(''builtin'', False)] else [])
         in (truthy (info_builtin_install agent) \<and> calls w' = calls w @ [(''builtin'', True)] \<and>
               out = Installed dest (Some ''builtin'')) \<or>
            (calls w' = calls w @ b @ [(''git'', True)] \<and> out = Installed dest (Some ''git'')) \<or>
            (calls w' = calls w @ b @ [(''git'', False), (''download'', True)] \<and>
               out = Installed dest (Some ''download'')) \<or>
            (calls w' = calls w @ b @ [(''git'', False), (''download'', False)] \<and>
               out = Failed dest)"
      using c1 c2 c3 out unfolding dest_def [symmetric] Let_def
      by (cases s1; cases s2; cases s3; cases "truthy (info_builtin_install agent)") auto
  next
    assume "method \<in> {''builtin'', ''git'', ''download''}"
    then show "let dest = destination E local skill agent
         in (method = ''builtin'' \<and> \<not> truthy (info_builtin_install agent) \<and> calls w' = calls w \<and>
               out = Failed dest) \<or>
            (calls w' = calls w @ [(method, True)] \<and> out = Installed dest (Some method)) \<or>
            (calls w' = calls w @ [(method, False)] \<and> out = Failed dest)"
      using c1 c2 c3 out unfolding dest_def [symmetric] Let_def
      by (cases s1; cases s2; cases s3; cases "truthy (info_builtin_install agent)") auto
  qed
qed

text \<open>The fallback of the specification: an agent with no command of its own and no
  \<^verbatim>\<open>git\<close> on the search path. Sparse checkout returns false, the archive is still
  fetched, and the target is installed by download.\<close>

theorem install_agent_cascade_witness:
  "install_agent (demo_env\<lparr>which := (\<lambda>x c. False)\<rparr>) (Some demo_source)
     ''acme/toolkit/packs/search'' ''search'' False ''auto'' False cursor_info demo_world =
     Inr (Installed ''/home/u/.cursor/skills/search'' (Some ''download''),
          demo_world\<lparr>files := (\<lambda>p. None)(''/home/u/.cursor/skills/search'' \<mapsto>
                                   Directory [([''SKILL.md''], ''# search'')]),
                      calls := [(''git'', False), (''download'', True)]\<rparr>) \<and>
   calls (demo_world\<lparr>files := (\<lambda>p. None)(''/home/u/.cursor/skills/search'' \<mapsto>
                                   Directory [([''SKILL.md''], ''# search'')]),
                      calls := [(''git'', False), (''download'', True)]\<rparr>) =
     calls demo_world @ [(''git'', False), (''download'', True)]"
proof -
  let ?E = "demo_env\<lparr>which := (\<lambda>x c. False)\<rparr>"
  let ?w' = "demo_world\<lparr>files := (\<lambda>p. None)(''/home/u/.cursor/skills/search'' \<mapsto>
                                   Directory [([''SKILL.md''], ''# search'')]),
                      calls := [(''git'', False), (''download'', True)]\<rparr>"
  have dest: "destination ?E False ''search'' cursor_info = ''/home/u/.cursor/skills/search''"
    by (simp add: destination_def cursor_info_def joinpath_def)
  have git: "install_git_sparse ?E demo_source ''/home/u/.cursor/skills/search'' demo_world =
               Inr (False, demo_world)"
    by (simp add: install_git_sparse_def demo_env_def)
  have dl: "\<And>cs. install_download ?E demo_source ''/home/u/.cursor/skills/search''
                    (demo_world\<lparr>calls := cs\<rparr>) =
              Inr (True, demo_world\<lparr>files := (\<lambda>p. None)(''/home/u/.cursor/skills/search'' \<mapsto>
                                   Directory [([''SKILL.md''], ''# search'')]), calls := cs\<rparr>)"
    by (simp add: install_download_def github_request_def demo_env_def demo_source_def
          demo_world_def zip_url_def auth_header_def truthy_def top_names_def startswith_def
          parts_of_def split_on_def tree_exists_def tree_dir_def tree_file_def subtree_def
          mkdir_p_def copytree_def resolve_simps dir_content_def overlay_def)
  have free: "\<not> path_exists (files demo_world) ''/home/u/.cursor/skills/search'' \<and>
              \<not> path_exists (files demo_world) ''acme/toolkit/packs/search''"
    by (simp add: demo_world_def path_exists_def resolve_simps)
  have nb: "\<not> truthy (info_builtin_install cursor_info)"
    by (simp add: truthy_def cursor_info_def)
  have nocalls: "calls demo_world = []"
    by (simp add: demo_world_def)
  have run: "install_agent ?E (Some demo_source) ''acme/toolkit/packs/search'' ''search'' False
               ''auto'' False cursor_info demo_world =
             Inr (Installed ''/home/u/.cursor/skills/search'' (Some ''download''), ?w')"
    using free git dl
    by (simp add: install_agent_def attempt_def dest Let_def nb nocalls)
  from install_agent_cascade [OF run] free dest
  show ?thesis using run by (simp add: nb)
qed


lemma install_agent_skip:
  "path_exists (files w) (destination E local skill agent) \<Longrightarrow> \<not> symlink \<Longrightarrow>
   install_agent E source lp skill symlink method local agent w =
     Inr (Skipped ''Already exists'' (destination E local skill agent), w)"
  by (simp add: install_agent_def)

lemma install_agent_local:
  "\<not> (path_exists (files w) (destination E local skill agent) \<and> \<not> symlink) \<Longrightarrow>
   path_exists (files w) lp \<Longrightarrow>
   install_agent E source lp skill symlink method local agent w =
     (case install_local lp (destination E local skill agent) symlink w of
        Inl e \<Rightarrow> Inl e
      | Inr (success, w') \<Rightarrow>
          Inr (if success
               then Installed (destination E local skill agent)
                      (Some (if symlink then ''symlink'' else ''copy''))
               else Failed (destination E local skill agent), w'))"
  by (auto simp: install_agent_def Let_def)

lemma install_agent_none:
  "\<not> (path_exists (files w) (destination E local skill agent) \<and> \<not> symlink) \<Longrightarrow>
   \<not> path_exists (files w) lp \<Longrightarrow>
   install_agent E None lp skill symlink method local agent w =
     Inr (Failed (destination E local skill agent), w)"
  by (auto simp: install_agent_def Let_def)

lemma install_agent_installed:
  assumes run: "install_agent E source lp skill False method local agent w = Inr (Installed d m, w1)"
  shows "d = destination E local skill agent \<and> (m \<noteq> Some ''builtin'' \<longrightarrow> path_exists (files w1) d)"
proof -
  define dest where "dest = destination E local skill agent"
  have ns: "\<not> (path_exists (files w) (destination E local skill agent) \<and> \<not> False)"
  proof
    assume "path_exists (files w) (destination E local skill agent) \<and> \<not> False"
    then have "install_agent E source lp skill False method local agent w =
                 Inr (Skipped ''Already exists'' (destination E local skill agent), w)"
      by (simp add: install_agent_skip)
    with run show False by simp
  qed
  show ?thesis
  proof (cases "path_exists (files w) lp")
    case True
    from run install_agent_local [OF ns True]
    obtain w' where "install_local lp dest False w = Inr (True, w')" and "w1 = w'" and "d = dest"
      unfolding dest_def by (auto split: sum.splits prod.splits if_splits)
    then show ?thesis using install_local_copy_exists dest_def by blast
  next
    case False
    show ?thesis
    proof (cases source)
      case None
      then show ?thesis using run install_agent_none [OF ns False] by simp
    next
      case (Some src)
      from install_agent_attempts [OF run [unfolded Some] ns False]
      obtain s1 m1 w1' s2 m2 w2 s3 m3 where
        a1: "attempt (method \<in> {''auto'', ''builtin''} \<and> truthy (info_builtin_install agent)) ''builtin''
               (install_builtin E src (case info_builtin_install agent of Some c \<Rightarrow> c | None \<Rightarrow> []))
               (False, None, w) = Inr (s1, m1, w1')" and
        a2: "attempt (\<not> s1 \<and> method \<in> {''auto'', ''git''}) ''git''
               (install_git_sparse E src dest) (s1, m1, w1') = Inr (s2, m2, w2)" and
        a3: "attempt (\<not> s2 \<and> method \<in> {''auto'', ''download''}) ''download''
               (install_download E src dest) (s2, m2, w2) = Inr (s3, m3, w1)" and
        out: "Installed d m = (if s3 then Installed dest m3 else Failed dest)"
        unfolding dest_def by blast
      from out have s3: s3 and d: "d = dest" and m: "m = m3" by (auto split: if_splits)
      have b: "s1 \<Longrightarrow> m1 = Some ''builtin''"
        using attempt_result [OF a1] by auto
      have g: "s2 \<Longrightarrow> m2 \<noteq> Some ''builtin'' \<Longrightarrow> path_exists (files w2) dest"
      proof -
        assume s2 and nb: "m2 \<noteq> Some ''builtin''"
        from attempt_result [OF a2] show ?thesis
        proof
          assume "\<not> (\<not> s1 \<and> method \<in> {''auto'', ''git''}) \<and> s2 = s1 \<and> m2 = m1 \<and> w2 = w1'"
          then show ?thesis using \<open>s2\<close> nb b by simp
        next
          assume "(\<not> s1 \<and> method \<in> {''auto'', ''git''}) \<and>
            (\<exists>v. install_git_sparse E src dest w1' = Inr (s2, v) \<and>
                 w2 = v\<lparr>calls := calls v @ [(''git'', s2)]\<rparr>) \<and>
            m2 = (if s2 then Some ''git'' else m1)"
          then obtain v where "install_git_sparse E src dest w1' = Inr (True, v)"
            and "files w2 = files v" using \<open>s2\<close> by auto
          then show ?thesis using install_git_sparse_exists by metis
        qed
      qed
      have "m3 \<noteq> Some ''builtin'' \<Longrightarrow> path_exists (files w1) dest"
      proof -
        assume nb: "m3 \<noteq> Some ''builtin''"
        from attempt_result [OF a3] show ?thesis
        proof
          assume "\<not> (\<not> s2 \<and> method \<in> {''auto'', ''download''}) \<and> s3 = s2 \<and> m3 = m2 \<and> w1 = w2"
          then show ?thesis using s3 nb g by simp
        next
          assume "(\<not> s2 \<and> method \<in> {''auto'', ''download''}) \<and>
            (\<exists>v. install_download E src dest w2 = Inr (s3, v) \<and>
                 w1 = v\<lparr>calls := calls v @ [(''download'', s3)]\<rparr>) \<and>
            m3 = (if s3 then Some ''download'' else m2)"
          then obtain v where "install_download E src dest w2 = Inr (True, v)"
            and "files w1 = files v" using s3 by auto
          then show ?thesis using install_download_exists by metis
        qed
      qed
      then show ?thesis using d m dest_def by simp
    qed
  qed
qed

text \<open>
  Claim C3 says that a second run without overwrite is always skipped. It is, whenever
  the first run left the destination in place, and local copy, sparse checkout and
  archive download always do. Native delegation never touches the destination: the
  agent's tool places the skill where it decides. In the run below the tool of
  \<^verbatim>\<open>claude\<close> installs under the home directory while the destination, with
  \<^verbatim>\<open>--local\<close>, lies under the project: the first run records the target as installed
  by \<^verbatim>\<open>builtin\<close>, and so does the second, which calls the tool again.
\<close>

theorem install_agent_twice_counterexample:
  "install_agent placing_env (Some demo_source) ''acme/toolkit/packs/search'' ''search'' False
     ''auto'' True claude_info demo_world =
     Inr (Installed ''/work/.claude/skills/search'' (Some ''builtin''), placed_world) \<and>
   install_agent placing_env (Some demo_source) ''acme/toolkit/packs/search'' ''search'' False
     ''auto'' True claude_info placed_world =
     Inr (Installed ''/work/.claude/skills/search'' (Some ''builtin''),
          placed_world\<lparr>calls := [(''builtin'', True), (''builtin'', True)]\<rparr>)"
  by (simp add: install_agent_def attempt_def destination_def joinpath_def claude_info_def
        placing_env_def demo_env_def demo_world_def placed_world_def path_exists_def
        resolve_simps truthy_def install_builtin_def Let_def)

text \<open>
  Claim C3 as amended. Without overwrite mode, whenever a pass over a target records it
  as installed and either the method recorded is not native delegation (it is
  \<^verbatim>\<open>copy\<close>, \<^verbatim>\<open>git\<close> or \<^verbatim>\<open>download\<close>) or the destination exists afterwards, a second
  pass with the same arguments records the target as skipped, with the reason
  \<^verbatim>\<open>Already exists\<close>, and returns the world of the first pass as it is: no strategy is
  called and the content of the destination, like every other file, is the one the first
  pass left.
\<close>

theorem install_agent_twice:
  assumes first: "install_agent E source lp skill False method local agent w = Inr (Installed d m, w1)"
    and placed: "m \<noteq> Some ''builtin'' \<or> path_exists (files w1) d"
  shows "install_agent E source lp skill False method local agent w1 =
           Inr (Skipped ''Already exists'' d, w1)"
  using install_agent_installed [OF first] placed by (auto simp: install_agent_skip)


theorem install_agent_twice_witness:
  "install_agent demo_env (Some demo_source) ''acme/toolkit/packs/search'' ''search'' False
     ''auto'' False cursor_info demo_world =
     Inr (Installed ''/home/u/.cursor/skills/search'' (Some ''git''), installed_world) \<and>
   install_agent demo_env (Some demo_source) ''acme/toolkit/packs/search'' ''search'' False
     ''auto'' False cursor_info installed_world =
     Inr (Skipped ''Already exists'' ''/home/u/.cursor/skills/search'', installed_world)"
proof -
  have dest: "destination demo_env False ''search'' cursor_info = ''/home/u/.cursor/skills/search''"
    by (simp add: destination_def cursor_info_def joinpath_def)
  have git: "install_git_sparse demo_env demo_source ''/home/u/.cursor/skills/search'' demo_world =
               Inr (True, demo_world\<lparr>files := (\<lambda>p. None)(''/home/u/.cursor/skills/search'' \<mapsto>
                                   Directory [([''SKILL.md''], ''# search'')])\<rparr>)"
    by (simp add: install_git_sparse_def demo_env_def demo_source_def demo_world_def
          check_run_def parts_of_def split_on_def tree_exists_def tree_dir_def subtree_def
          mkdir_p_def copytree_def resolve_simps resolved_def dir_content_def overlay_def
          tree_file_def path_exists_def)
  have free: "\<not> path_exists (files demo_world) ''/home/u/.cursor/skills/search'' \<and>
              \<not> path_exists (files demo_world) ''acme/toolkit/packs/search''"
    by (simp add: demo_world_def path_exists_def resolve_simps)
  have nb: "\<not> truthy (info_builtin_install cursor_info)"
    by (simp add: truthy_def cursor_info_def)
  have first: "install_agent demo_env (Some demo_source) ''acme/toolkit/packs/search'' ''search''
                 False ''auto'' False cursor_info demo_world =
               Inr (Installed ''/home/u/.cursor/skills/search'' (Some ''git''), installed_world)"
    using free git
    by (simp add: install_agent_def attempt_def dest Let_def nb installed_world_def demo_world_def)
  have placed: "Some ''git'' \<noteq> Some ''builtin'' \<or>
                path_exists (files installed_world) ''/home/u/.cursor/skills/search''"
    by simp
  from install_agent_twice [OF first placed] first show ?thesis by simp
qed



lemmas detect_defs = detect_all_def AGENTS_def detect_agent_def demo_env_def List.map_filter_def
  strip_def split_on_def is_space_def truthy_def joinpath_def path_exists_def resolve_simps









text \<open>An exception that leaves a strategy leaves \<^verbatim>\<open>install_skill\<close> and \<^verbatim>\<open>main\<close> too,
  which catches \<^verbatim>\<open>InstallError\<close> only: no report is produced and the targets that
  follow are not visited.\<close>

lemma install_main_crash:
  "install_main (demo_env\<lparr>git_sparse_set := (\<lambda>p t x. ((Exited 128, t), x))\<rparr>)
     ''acme/toolkit/packs/search'' ''all'' False False ''git'' demo_world = Inl CalledProcessError"
proof -
  let ?E = "demo_env\<lparr>git_sparse_set := (\<lambda>p t x. ((Exited 128, t), x))\<rparr>"
  have det: "detect_all ?E (files demo_world) () = [claude_info]"
    by (simp add: detect_defs claude_info_def demo_world_def)
  have src: "parse_source ?E ''acme/toolkit/packs/search'' (files demo_world) =
               Inr (Some demo_source, ''search'')"
    by (simp add: parse_source_def startswith_def parse_shorthand_def split_on_def
          demo_source_def demo_world_def path_exists_def resolve_simps Let_def)
  have git: "install_git_sparse ?E demo_source ''/home/u/.claude/skills/search'' demo_world =
               Inl CalledProcessError"
    by (simp add: install_git_sparse_def demo_env_def demo_source_def demo_world_def check_run_def)
  have dest: "destination ?E False ''search'' claude_info = ''/home/u/.claude/skills/search''"
    by (simp add: destination_def claude_info_def joinpath_def)
  have free: "\<not> path_exists (files demo_world) ''/home/u/.claude/skills/search'' \<and>
              \<not> path_exists (files demo_world) ''acme/toolkit/packs/search''"
    by (simp add: demo_world_def path_exists_def resolve_simps)
  have loop: "install_loop ?E (Some demo_source) ''acme/toolkit/packs/search'' ''search''
                False ''git'' False [(''claude'', claude_info)]
                \<lparr>installed = [], failed = [], skipped = []\<rparr> demo_world = Inl CalledProcessError"
    using free git by (simp add: install_agent_def attempt_def dest Let_def)
  have cn: "info_name claude_info = ''claude''" by (simp add: claude_info_def)
  show ?thesis
    by (simp add: install_main_def install_skill_def src det cn by_name_def requested_def
          agents_of_arg_def loop del: install_loop.simps)
qed


text \<open>
  Claim C4. Whenever \<^verbatim>\<open>install_skill\<close> returns a report, \<^verbatim>\<open>main\<close> exits with 1 if and
  only if the report has a failed target and no installed target, and with 0 in every
  other case; a report with installed and failed targets side by side gives 0.
\<close>

theorem install_main_exit_status:
  assumes "install_skill E source_arg (Some (agents_of_arg agents_arg)) sy m lo w = Inr (r, w')"
  shows "(install_main E source_arg agents_arg sy lo m w = Inr 1) =
           (failed r \<noteq> [] \<and> installed r = []) \<and>
         (install_main E source_arg agents_arg sy lo m w = Inr 0) =
           (\<not> (failed r \<noteq> [] \<and> installed r = []))"
  using assms by (simp add: install_main_def exit_status_def)

theorem install_main_exit_status_witness:
  "install_skill demo_env ''acme/toolkit/packs/search'' (Some (agents_of_arg ''all'')) False
     ''builtin'' False two_agents_world =
     Inr (\<lparr>installed = [(''claude'', ''/home/u/.claude/skills/search'', Some ''builtin'')],
           failed = [(''cursor'', ''/home/u/.cursor/skills/search'')], skipped = []\<rparr>,
          two_agents_world\<lparr>calls := [(''builtin'', True)]\<rparr>) \<and>
   install_main demo_env ''acme/toolkit/packs/search'' ''all'' False False ''builtin''
     two_agents_world = Inr 0"
proof -
  have det: "detect_all demo_env (files two_agents_world) () =
               [claude_info, cursor_info]"
    by (simp add: detect_defs claude_info_def cursor_info_def two_agents_world_def)
  have names: "info_name claude_info = ''claude'' \<and> info_name cursor_info = ''cursor''"
    by (simp add: claude_info_def cursor_info_def)
  have src: "parse_source demo_env ''acme/toolkit/packs/search'' (files two_agents_world) =
               Inr (Some demo_source, ''search'')"
    by (simp add: parse_source_def startswith_def parse_shorthand_def split_on_def
          demo_source_def two_agents_world_def path_exists_def resolve_simps Let_def)
  have loop: "install_loop demo_env (Some demo_source) ''acme/toolkit/packs/search'' ''search''
                False ''builtin'' False [(''claude'', claude_info), (''cursor'', cursor_info)]
                \<lparr>installed = [], failed = [], skipped = []\<rparr> two_agents_world =
     Inr (\<lparr>installed = [(''claude'', ''/home/u/.claude/skills/search'', Some ''builtin'')],
           failed = [(''cursor'', ''/home/u/.cursor/skills/search'')], skipped = []\<rparr>,
          two_agents_world\<lparr>calls := [(''builtin'', True)]\<rparr>)"
    by (simp add: install_agent_def attempt_def install_builtin_def destination_def
          claude_info_def cursor_info_def joinpath_def truthy_def record_outcome_def
          two_agents_world_def demo_env_def path_exists_def resolve_simps Let_def)
  have run: "install_skill demo_env ''acme/toolkit/packs/search'' (Some (agents_of_arg ''all''))
               False ''builtin'' False two_agents_world =
     Inr (\<lparr>installed = [(''claude'', ''/home/u/.claude/skills/search'', Some ''builtin'')],
           failed = [(''cursor'', ''/home/u/.cursor/skills/search'')], skipped = []\<rparr>,
          two_agents_world\<lparr>calls := [(''builtin'', True)]\<rparr>)"
    by (simp add: install_skill_def src det names by_name_def requested_def agents_of_arg_def loop
          del: install_loop.simps)
  from install_main_exit_status [OF run] run show ?thesis by simp
qed

section \<open>Properties of the uninstaller\<close>

lemma dict_set_keys: "fst ` set (dict_set k v d) = insert k (fst ` set d)"
proof (induction d)
  case Nil
  show ?case by simp
next
  case (Cons e d)
  then show ?case by (cases e) (simp add: insert_commute)
qed

lemma by_name_keys_from:
  "fst ` set (foldl (\<lambda>d a. dict_set (info_name a) a d) d0 infos) =
     fst ` set d0 \<union> info_name ` set infos"
proof (induction infos arbitrary: d0)
  case Nil
  show ?case by simp
next
  case (Cons a infos)
  show ?case by (simp add: Cons.IH dict_set_keys)
qed

lemma by_name_keys: "fst ` set (by_name infos) = info_name ` set infos"
  by (simp add: by_name_def by_name_keys_from)

lemma by_name_none_selected:
  assumes "\<forall>i \<in> set infos. info_name i \<notin> set names"
  shows "filter (\<lambda>(k, v). k \<in> set names) (by_name infos) = []"
proof -
  have "\<And>e. e \<in> set (by_name infos) \<Longrightarrow> fst e \<notin> set names"
  proof -
    fix e assume "e \<in> set (by_name infos)"
    then have "fst e \<in> info_name ` set infos" using by_name_keys [of infos] by blast
    then show "fst e \<notin> set names" using assms by auto
  qed
  then show ?thesis by (auto simp: filter_empty_conv)
qed

text \<open>
  Claim C10. When no agent is detected, or when the caller names agents and none of
  them is detected, \<^verbatim>\<open>uninstall_skill\<close> returns the empty report, with no removed and
  no not-found entry, and leaves the world as it is; \<^verbatim>\<open>main\<close> of uninstall.py then
  exits with 1. In the same two situations \<^verbatim>\<open>install_skill\<close>, once the source string
  has parsed, raises \<^verbatim>\<open>InstallError\<close>.
\<close>

theorem uninstall_no_targets:
  assumes "detect_all E (files w) (ext w) = [] \<or>
           (requested agents = Some names \<and>
            (\<forall>i \<in> set (detect_all E (files w) (ext w)). info_name i \<notin> set names))"
  shows "uninstall_skill E skill agents w = (\<lparr>removed = [], not_found = []\<rparr>, w) \<and>
         (agents = Some (agents_of_arg agents_arg) \<longrightarrow> uninstall_main E skill agents_arg w = 1) \<and>
         (\<forall>v. parse_source E s (files w) = Inr v \<longrightarrow>
            (\<exists>e. install_skill E s agents sy m lo w = Inl (InstallError e)))"
proof -
  have u: "uninstall_skill E skill agents w = (\<lparr>removed = [], not_found = []\<rparr>, w)"
    using assms
  proof
    assume "detect_all E (files w) (ext w) = []"
    then show ?thesis by (simp add: uninstall_skill_def by_name_def)
  next
    assume a: "requested agents = Some names \<and>
            (\<forall>i \<in> set (detect_all E (files w) (ext w)). info_name i \<notin> set names)"
    then have "filter (\<lambda>(k, v). k \<in> set names) (by_name (detect_all E (files w) (ext w))) = []"
      by (simp add: by_name_none_selected)
    then show ?thesis using a by (simp add: uninstall_skill_def Let_def)
  qed
  have i: "\<And>v. parse_source E s (files w) = Inr v \<Longrightarrow>
            \<exists>e. install_skill E s agents sy m lo w = Inl (InstallError e)"
  proof -
    fix v assume p: "parse_source E s (files w) = Inr v"
    obtain src nm where v: "v = (src, nm)" by (cases v)
    from assms show "\<exists>e. install_skill E s agents sy m lo w = Inl (InstallError e)"
    proof
      assume "detect_all E (files w) (ext w) = []"
      then show ?thesis using p v by (simp add: install_skill_def by_name_def)
    next
      assume a: "requested agents = Some names \<and>
            (\<forall>i \<in> set (detect_all E (files w) (ext w)). info_name i \<notin> set names)"
      then have "filter (\<lambda>(k, v). k \<in> set names) (by_name (detect_all E (files w) (ext w))) = []"
        by (simp add: by_name_none_selected)
      then show ?thesis using a p v by (simp add: install_skill_def Let_def)
    qed
  qed
  show ?thesis using u i by (auto simp: uninstall_main_def)
qed

theorem uninstall_no_targets_witness:
  "uninstall_skill demo_env ''search'' (Some (agents_of_arg ''cursor'')) demo_world =
     (\<lparr>removed = [], not_found = []\<rparr>, demo_world) \<and>
   uninstall_main demo_env ''search'' ''cursor'' demo_world = 1 \<and>
   uninstall_main (demo_env\<lparr>which := (\<lambda>x c. False)\<rparr>) ''search'' ''all'' demo_world = 1"
proof -
  have det: "detect_all demo_env (files demo_world) () = [claude_info]"
    by (simp add: detect_defs claude_info_def demo_world_def)
  have req: "requested (Some (agents_of_arg ''cursor'')) = Some [''cursor'']"
    by (simp add: requested_def agents_of_arg_def split_on_def)
  have none: "\<forall>i \<in> set (detect_all demo_env (files demo_world) (ext demo_world)).
                info_name i \<notin> set [''cursor'']"
    using det by (simp add: claude_info_def)
  have nodet: "detect_all (demo_env\<lparr>which := (\<lambda>x c. False)\<rparr>) (files demo_world) () = []"
    by (simp add: detect_defs demo_world_def)
  from uninstall_no_targets [of demo_env demo_world "Some (agents_of_arg ''cursor'')"
      "[''cursor'']" "''search''" "''cursor''"] req none
    uninstall_no_targets [of "demo_env\<lparr>which := (\<lambda>x c. False)\<rparr>" demo_world
      "Some (agents_of_arg ''all'')" "[]" "''search''" "''all''"] nodet
  show ?thesis by simp
qed

lemma uninstall_builtin_command:
  "info_builtin_install agent = Some c \<Longrightarrow> c \<noteq> [] \<Longrightarrow>
   native E (words (replace ''install'' ''remove'' c) @ [skill]) (files w) (ext w) = (r, fs', x') \<Longrightarrow>
   uninstall_builtin E skill agent w = (r = Exited 0, w\<lparr>files := fs', ext := x'\<rparr>)"
  by (auto simp: uninstall_builtin_def Let_def split: proc.splits)

lemma uninstall_builtin_none:
  "\<not> truthy (info_builtin_install agent) \<Longrightarrow> uninstall_builtin E skill agent w = (False, w)"
  by (auto simp: uninstall_builtin_def truthy_def split: option.splits)

lemma uninstall_loop_count:
  "uninstall_loop E skill ts r w = (r', w') \<Longrightarrow>
   length (removed r') + length (not_found r') = length (removed r) + length (not_found r) + length ts"
proof (induction ts arbitrary: r w)
  case Nil
  then show ?case by simp
next
  case (Cons t ts)
  obtain nm agent where t: "t = (nm, agent)" by (cases t)
  obtain out w1 where a: "uninstall_agent E skill agent w = (out, w1)" by (cases "uninstall_agent E skill agent w")
  from Cons.prems have "uninstall_loop E skill ts (record_removal nm out r) w1 = (r', w')"
    unfolding t by (simp add: a)
  from Cons.IH [OF this] show ?case
    by (cases out) (auto simp: record_removal_def)
qed

text \<open>What the scripts delete themselves lies at the target's own skill path: a pass
  over a target leaves every other path as the native removal left it, and a run over
  targets without native commands changes no path but the skill paths of its
  targets.\<close>

lemma uninstall_agent_frame:
  assumes "q \<noteq> joinpath (info_skills_path agent) skill"
  shows "files (snd (uninstall_agent E skill agent w)) q =
         files (snd (uninstall_builtin E skill agent w)) q"
proof (cases "truthy (info_builtin_install agent)")
  case True
  then show ?thesis using assms
    by (auto simp: uninstall_agent_def Let_def unlink_def rmtree_def split: prod.splits)
next
  case False
  then show ?thesis using assms
    by (auto simp: uninstall_agent_def uninstall_builtin_none Let_def unlink_def rmtree_def
             split: prod.splits)
qed

lemma uninstall_loop_frame:
  assumes "\<forall>t \<in> set ts. \<not> truthy (info_builtin_install (snd t)) \<and>
                          q \<noteq> joinpath (info_skills_path (snd t)) skill"
    and "uninstall_loop E skill ts r w = (r', w')"
  shows "files w' q = files w q"
  using assms
proof (induction ts arbitrary: r w)
  case Nil
  then show ?case by simp
next
  case (Cons t ts)
  obtain nm agent where t: "t = (nm, agent)" by (cases t)
  obtain out w1 where a: "uninstall_agent E skill agent w = (out, w1)"
    by (cases "uninstall_agent E skill agent w")
  from Cons.prems have nb: "\<not> truthy (info_builtin_install agent)"
    and q: "q \<noteq> joinpath (info_skills_path agent) skill" unfolding t by auto
  from Cons.prems(2) have l: "uninstall_loop E skill ts (record_removal nm out r) w1 = (r', w')"
    unfolding t by (simp add: a)
  have "files w1 q = files w q"
    using uninstall_agent_frame [OF q, of E w] a uninstall_builtin_none [OF nb, of E skill w]
    by simp
  moreover have "files w' q = files w1 q"
    using Cons.IH [OF _ l] Cons.prems(1) by simp
  ultimately show ?case by simp
qed






text \<open>The existence check follows links. A link at the skill path whose target is gone
  does not exist for the scripts: without a native removal, the target is recorded as not
  found and the link stays where it is.\<close>

lemma uninstall_agent_dangling_link:
  assumes "\<not> truthy (info_builtin_install agent)"
    and "files w (joinpath (info_skills_path agent) skill) = Some (Symlink t)"
    and "files w t = None"
  shows "uninstall_agent E skill agent w = (NotFound (joinpath (info_skills_path agent) skill), w)"
  using assms
  by (simp add: uninstall_agent_def path_exists_def resolve_simps follow_numeral Let_def)

end
